theory Spec2Isabelle
  imports Main "HOL-Library.Sublist"
begin

section \<open>Python string operations used by driverutils\<close>

text \<open>
  Text is a list of characters. The operations below are the \<open>str\<close> methods the two
  modules call, each written out as the interpreter computes it. Separators are the
  one-character strings the source passes (\<open>'.'\<close> and \<open>'/'\<close>).
\<close>

definition startswith :: "string \<Rightarrow> string \<Rightarrow> bool" where
  "startswith s p = prefix p s"

definition endswith :: "string \<Rightarrow> string \<Rightarrow> bool" where
  "endswith s p = suffix p s"

text \<open>\<open>sub in s\<close> on two strings: \<open>sub\<close> occurs in \<open>s\<close> as a contiguous run.\<close>

definition str_in :: "string \<Rightarrow> string \<Rightarrow> bool" where
  "str_in sub s = sublist sub s"

text \<open>\<open>s.split(c)\<close>: never empty; an empty \<open>s\<close> gives \<open>['']\<close>.\<close>

fun split_on :: "char \<Rightarrow> string \<Rightarrow> string list" where
  "split_on c [] = [[]]"
| "split_on c (x # xs) =
     (if x = c then [] # split_on c xs
      else (case split_on c xs of
              [] \<Rightarrow> [[x]]
            | w # ws \<Rightarrow> (x # w) # ws))"

text \<open>\<open>xs[0]\<close> and \<open>xs[-1]\<close> raise IndexError on an empty list.\<close>

datatype error =
    PlatformUnsupported
  | OSError
  | CalledProcessError
  | IndexError
  | TypeError
  | AttributeError
  | KeyError
  | ValueError
  | ParseError
  | BadArchive
  | URLError
  | ChromeNotInstalled
  | NoMatchingDriver
  | GeckoReleaseNotFound
  | DriverVersionNotFound

definition first_item :: "'a list \<Rightarrow> error + 'a" where
  "first_item xs = (case xs of [] \<Rightarrow> Inl IndexError | x # _ \<Rightarrow> Inr x)"

definition last_item :: "'a list \<Rightarrow> error + 'a" where
  "last_item xs = (if xs = [] then Inl IndexError else Inr (last xs))"

definition second_item :: "'a list \<Rightarrow> error + 'a" where
  "second_item xs = (case xs of x # y # _ \<Rightarrow> Inr y | _ \<Rightarrow> Inl IndexError)"

text \<open>\<open>s[:-2]\<close>: all but the last two characters, empty when \<open>s\<close> has at most two.\<close>

definition slice_to_minus2 :: "string \<Rightarrow> string" where
  "slice_to_minus2 s = take (length s - 2) s"

text \<open>
  \<open>str.isspace\<close> on the code points below 256: the ASCII white space, the four
  separators 0x1C..0x1F, NEL and the no-break space.
\<close>

definition isspace :: "char \<Rightarrow> bool" where
  "isspace c = (of_char c \<in> {9, 10, 11, 12, 13, 28, 29, 30, 31, 32, 133, 160 :: nat})"

definition strip :: "string \<Rightarrow> string" where
  "strip s = rev (dropWhile isspace (rev (dropWhile isspace s)))"

text \<open>\<open>s.split()\<close>: the maximal runs of non-space characters, in order.\<close>

fun split_ws_acc :: "string \<Rightarrow> string \<Rightarrow> string list" where
  "split_ws_acc cur [] = (if cur = [] then [] else [rev cur])"
| "split_ws_acc cur (c # cs) =
     (if isspace c
      then (if cur = [] then split_ws_acc [] cs else rev cur # split_ws_acc [] cs)
      else split_ws_acc (c # cur) cs)"

definition split_ws :: "string \<Rightarrow> string list" where
  "split_ws s = split_ws_acc [] s"

text \<open>
  \<open>s.replace(old, '')\<close>: the occurrences of \<open>old\<close> are deleted left to right without
  overlap. The counter is the number of characters of the current occurrence still to
  skip.
\<close>

fun delete_all_from :: "string \<Rightarrow> nat \<Rightarrow> string \<Rightarrow> string" where
  "delete_all_from old k [] = []"
| "delete_all_from old k (c # cs) =
     (if 0 < k then delete_all_from old (k - 1) cs
      else if old \<noteq> [] \<and> prefix old (c # cs) then delete_all_from old (length old - 1) cs
      else c # delete_all_from old 0 cs)"

definition replace_with_empty :: "string \<Rightarrow> string \<Rightarrow> string" where
  "replace_with_empty s old = delete_all_from old 0 s"

definition is_digit :: "char \<Rightarrow> bool" where
  "is_digit c = (48 \<le> (of_char c :: nat) \<and> (of_char c :: nat) \<le> 57)"

definition newline :: char where
  "newline = CHR 0x0A"

definition backslash :: char where
  "backslash = CHR 0x5C"

text \<open>\<open>s.find(sub)\<close>: the lowest index at which \<open>sub\<close> occurs, or -1.\<close>

fun find_at :: "string \<Rightarrow> nat \<Rightarrow> string \<Rightarrow> int" where
  "find_at sub i [] = (if sub = [] then int i else - 1)"
| "find_at sub i (c # cs) = (if prefix sub (c # cs) then int i else find_at sub (Suc i) cs)"

definition str_find :: "string \<Rightarrow> string \<Rightarrow> int" where
  "str_find s sub = find_at sub 0 s"

section \<open>Regular expressions of the installer\<close>

text \<open>
  \<open>re.match(r'.*?([\d.]+).*?', s)[1]\<close> (ChromeInstaller.current_version): the lazy prefix
  skips characters other than a line break until the first digit or dot; the group is the
  maximal run of digits and dots from there. No such character on the first line: the
  match is None.
\<close>

definition is_digit_or_dot :: "char \<Rightarrow> bool" where
  "is_digit_or_dot c = (is_digit c \<or> c = CHR ''.'')"

fun re_match_digits_dots :: "string \<Rightarrow> string option" where
  "re_match_digits_dots [] = None"
| "re_match_digits_dots (c # cs) =
     (if is_digit_or_dot c then Some (takeWhile is_digit_or_dot (c # cs))
      else if c = newline then None
      else re_match_digits_dots cs)"

text \<open>
  \<open>\d+\.\d+\.\d+\<close> tried at the head of a string: three maximal digit runs separated
  by dots (a shorter first or second run would be followed by a digit, not by the dot).
  The result is the group and the text after it.
\<close>

definition match_triple :: "string \<Rightarrow> (string \<times> string) option" where
  "match_triple s =
     (let a = takeWhile is_digit s; r1 = dropWhile is_digit s in
      if a = [] then None
      else (case r1 of
              [] \<Rightarrow> None
            | d1 # r1' \<Rightarrow>
                if d1 \<noteq> CHR ''.'' then None
                else (let b = takeWhile is_digit r1'; r2 = dropWhile is_digit r1' in
                      if b = [] then None
                      else (case r2 of
                              [] \<Rightarrow> None
                            | d2 # r2' \<Rightarrow>
                                if d2 \<noteq> CHR ''.'' then None
                                else (let c = takeWhile is_digit r2';
                                          r3 = dropWhile is_digit r2' in
                                      if c = [] then None
                                      else Some (a @ ''.'' @ b @ ''.'' @ c, r3))))))"

text \<open>
  The greedy \<open>.*\<close> before the group: it first takes the whole rest of the line and
  gives characters back one at a time, so the group is matched at the last position of
  the line where it can be.
\<close>

fun greedy_then_triple :: "string \<Rightarrow> (string \<times> string) option" where
  "greedy_then_triple [] = None"
| "greedy_then_triple (c # cs) =
     (if c = newline then None
      else (case greedy_then_triple cs of
              Some r \<Rightarrow> Some r
            | None \<Rightarrow> match_triple (c # cs)))"

text \<open>\<open>re.search\<close> of \<open>gecko.*(\d+\.\d+\.\d+)\<close>: the leftmost start that matches.\<close>

fun search_gecko :: "string \<Rightarrow> (string \<times> string) option" where
  "search_gecko [] = None"
| "search_gecko (c # cs) =
     (if prefix ''gecko'' (c # cs)
      then (case greedy_then_triple (drop 5 (c # cs)) of
              Some r \<Rightarrow> Some r
            | None \<Rightarrow> search_gecko cs)
      else search_gecko cs)"

text \<open>
  \<open>re.findall\<close> resumes the search where the previous match ended. Every match is
  at least ten characters long, so the rest is shorter and the scan ends.
\<close>


lemma match_triple_shorter:
  assumes "match_triple s = Some (g, r)"
  shows "length r < length s"
proof -
  from assms obtain r1' r2' where
    r1: "dropWhile is_digit s = CHR ''.'' # r1'" and
    r2: "dropWhile is_digit r1' = CHR ''.'' # r2'" and
    r: "r = dropWhile is_digit r2'"
    unfolding match_triple_def Let_def
    by (auto split: if_splits list.splits)
  have "length r \<le> length r2'" using r by (simp add: length_dropWhile_le)
  also have "length r2' < length (dropWhile is_digit r1')" using r2 by simp
  also have "\<dots> \<le> length r1'" by (rule length_dropWhile_le)
  also have "length r1' < length (dropWhile is_digit s)" using r1 by simp
  also have "\<dots> \<le> length s" by (rule length_dropWhile_le)
  finally show ?thesis .
qed

lemma greedy_then_triple_shorter:
  "greedy_then_triple s = Some (g, r) \<Longrightarrow> length r < length s"
proof (induction s)
  case Nil
  then show ?case by simp
next
  case (Cons c cs)
  show ?case
  proof (cases "greedy_then_triple cs")
    case None
    with Cons.prems have "match_triple (c # cs) = Some (g, r)"
      by (simp split: if_splits)
    then show ?thesis by (rule match_triple_shorter)
  next
    case (Some p)
    with Cons.prems have "greedy_then_triple cs = Some (g, r)"
      by (simp split: if_splits)
    then have "length r < length cs" by (rule Cons.IH)
    then show ?thesis by simp
  qed
qed

lemma search_gecko_shorter:
  "search_gecko s = Some (g, r) \<Longrightarrow> length r < length s"
proof (induction s)
  case Nil
  then show ?case by simp
next
  case (Cons c cs)
  show ?case
  proof (cases "prefix ''gecko'' (c # cs) \<and> greedy_then_triple (drop 5 (c # cs)) \<noteq> None")
    case True
    with Cons.prems have "greedy_then_triple (drop 5 (c # cs)) = Some (g, r)"
      by auto
    then have "length r < length (drop 5 (c # cs))" by (rule greedy_then_triple_shorter)
    then show ?thesis by simp
  next
    case False
    with Cons.prems have "search_gecko cs = Some (g, r)"
      by (auto split: if_splits option.splits)
    then have "length r < length cs" by (rule Cons.IH)
    then show ?thesis by simp
  qed
qed

function re_findall_gecko :: "string \<Rightarrow> string list" where
  "re_findall_gecko s =
     (case search_gecko s of
        None \<Rightarrow> []
      | Some (g, rest) \<Rightarrow> g # re_findall_gecko rest)"
  by pat_completeness auto
termination
  by (relation "measure length") (auto dest: search_gecko_shorter)

declare re_findall_gecko.simps [simp del]

section \<open>The process, the file system and the network\<close>

text \<open>
  installer.py reads \<open>sys.platform\<close>, \<open>sys.maxsize\<close> and \<open>platform.machine()\<close>,
  starts programs, opens URLs, and reads and writes files and \<open>os.environ['PATH']\<close>.
  The world record holds what those calls observe and change. Program output is taken as
  already decoded text. \<open>net_log\<close> lists, in order, every URL given to
  \<open>urllib.request.urlopen\<close>. A URL gets the same answer and a program prints the
  same output each time it is asked; only the installer changes the files.
\<close>

datatype proc_outcome = NotLaunched | Exited int string

record driver_file =
  x_ok :: bool
  run :: "string list \<Rightarrow> proc_outcome"

datatype body =
    XmlKeys "string option list"
  | ZipArchive "string \<rightharpoonup> driver_file"
  | TarGz "string \<rightharpoonup> driver_file"
  | Garbage

record response =
  status :: int
  final_url :: string
  content :: body

record world =
  platform :: string
  maxsize :: int
  machine :: string
  cwd_abspath :: string
  module_dir :: string
  environ_PATH :: "string option"
  files :: "string \<rightharpoonup> driver_file"
  commands :: "string list \<Rightarrow> proc_outcome"
  net :: "string \<Rightarrow> response option"
  net_log :: "string list"

datatype family = Chrome | Ie | FireFox

text \<open>
  An installer object: its class, the constructor's \<open>cwd\<close> flag, and the two attributes
  \<open>_require_version\<close> and \<open>_current_version\<close>, absent (None) until a property sets
  them with \<open>setattr\<close>.
\<close>

record installer =
  cls :: family
  cwd :: bool
  require_cache :: "string option"
  current_cache :: "string option"

type_synonym 'a run = "installer \<times> world \<Rightarrow> (error + 'a) \<times> installer \<times> world"

definition ret :: "'a \<Rightarrow> 'a run" where
  "ret x = (\<lambda>(self, w). (Inr x, self, w))"

definition raise :: "error \<Rightarrow> 'a run" where
  "raise e = (\<lambda>(self, w). (Inl e, self, w))"

definition lift :: "error + 'a \<Rightarrow> 'a run" where
  "lift r = (\<lambda>(self, w). (r, self, w))"

text \<open>Sequencing: an exception of the first step ends the run with the state it left.\<close>

definition bind :: "'a run \<Rightarrow> ('a \<Rightarrow> 'b run) \<Rightarrow> 'b run" where
  "bind m f = (\<lambda>s. case m s of
                       (Inl e, s') \<Rightarrow> (Inl e, s')
                     | (Inr x, s') \<Rightarrow> f x s')"

subsection \<open>os, subprocess, urllib\<close>

definition is_win :: "world \<Rightarrow> bool" where
  "is_win w = startswith (platform w) ''win''"

text \<open>
  \<open>os.path.join(a, b)\<close> for two components. posixpath: an absolute \<open>b\<close> replaces
  \<open>a\<close>; otherwise a slash is put between them unless \<open>a\<close> is empty or ends with one.
  ntpath, for a component \<open>b\<close> without drive or root (the binary names): a backslash is
  put between them unless \<open>a\<close> is empty or ends with a separator or the drive colon.
\<close>

definition path_join :: "world \<Rightarrow> string \<Rightarrow> string \<Rightarrow> string" where
  "path_join w a b =
     (if is_win w
      then (if a = [] \<or> last a \<in> {backslash, CHR ''/'', CHR '':''} then a @ b
            else a @ [backslash] @ b)
      else (if startswith b ''/'' then b
            else if a = [] \<or> endswith a ''/'' then a @ b
            else a @ ''/'' @ b))"

definition isfile :: "world \<Rightarrow> string \<Rightarrow> bool" where
  "isfile w p = (files w p \<noteq> None)"

definition access_x_ok :: "world \<Rightarrow> string \<Rightarrow> bool" where
  "access_x_ok w p = (case files w p of None \<Rightarrow> False | Some f \<Rightarrow> x_ok f)"

definition chmod_744 :: "string \<Rightarrow> unit run" where
  "chmod_744 p = (\<lambda>(self, w).
     case files w p of
       None \<Rightarrow> (Inl OSError, self, w)
     | Some f \<Rightarrow> (Inr (), self, w\<lparr>files := (files w)(p \<mapsto> f\<lparr>x_ok := True\<rparr>)\<rparr>))"

text \<open>
  \<open>subprocess.Popen(argv, stdout=PIPE)\<close> followed by reading the output: the exit code
  is not looked at. A program that cannot be started raises.
\<close>

definition popen_read :: "world \<Rightarrow> string list \<Rightarrow> error + string" where
  "popen_read w argv =
     (case commands w argv of
        NotLaunched \<Rightarrow> Inl OSError
      | Exited rc out \<Rightarrow> Inr out)"

text \<open>
  \<open>subprocess.check_output([path, flag])\<close> on a file of the file system: a missing or
  non-executable file cannot be started; a non-zero exit code raises.
\<close>

definition check_output :: "world \<Rightarrow> string \<Rightarrow> string list \<Rightarrow> error + string" where
  "check_output w p args =
     (case files w p of
        None \<Rightarrow> Inl OSError
      | Some f \<Rightarrow>
          if \<not> x_ok f then Inl OSError
          else (case run f args of
                  NotLaunched \<Rightarrow> Inl OSError
                | Exited rc out \<Rightarrow> if rc \<noteq> 0 then Inl CalledProcessError else Inr out))"

text \<open>
  \<open>urllib.request.urlopen(url)\<close>: the request is recorded; a transport or HTTP error
  raises, otherwise the response object is returned.
\<close>

definition urlopen :: "string \<Rightarrow> response run" where
  "urlopen u = (\<lambda>(self, w).
     (case net w u of None \<Rightarrow> Inl URLError | Some r \<Rightarrow> Inr r,
      self, w\<lparr>net_log := net_log w @ [u]\<rparr>))"

text \<open>
  \<open>ZipFile(archive).extract(name, dir)\<close> and \<open>tarfile.open(...).extract(name, dir)\<close>:
  the member is written to \<open>dir/name\<close>; a member that is not in the archive is a
  KeyError.
\<close>

definition write_member :: "(string \<rightharpoonup> driver_file) \<Rightarrow> string \<Rightarrow> string \<Rightarrow> unit run" where
  "write_member ar name dir = (\<lambda>(self, w).
     case ar name of
       None \<Rightarrow> (Inl KeyError, self, w)
     | Some f \<Rightarrow> (Inr (), self, w\<lparr>files := (files w)(path_join w dir name \<mapsto> f)\<rparr>))"

definition zip_extract :: "body \<Rightarrow> string \<Rightarrow> string \<Rightarrow> unit run" where
  "zip_extract b name dir =
     (case b of ZipArchive ar \<Rightarrow> write_member ar name dir | _ \<Rightarrow> raise BadArchive)"

definition tar_extract :: "body \<Rightarrow> string \<Rightarrow> string \<Rightarrow> unit run" where
  "tar_extract b name dir =
     (case b of TarGz ar \<Rightarrow> write_member ar name dir | _ \<Rightarrow> raise BadArchive)"

section \<open>installer.py\<close>

subsection \<open>InstallInterface: driver_dir\<close>

definition driver_dir :: "installer \<Rightarrow> world \<Rightarrow> string" where
  "driver_dir self w = (if cwd self then cwd_abspath w else module_dir w)"

subsection \<open>ChromeInstaller\<close>

definition ChromeInstaller_get_platform_architecture :: "world \<Rightarrow> error + string \<times> string" where
  "ChromeInstaller_get_platform_architecture w =
     (if startswith (platform w) ''linux'' \<and> maxsize w > 2 ^ 32 then Inr (''linux'', ''64'')
      else if platform w = ''darwin'' then Inr (''mac'', ''64'')
      else if startswith (platform w) ''win'' then Inr (''win'', ''32'')
      else Inl PlatformUnsupported)"

text \<open>
  \<open>'chromedriver' + '.exe' if sys.platform.startswith('win') else ''\<close>: the conditional
  expression binds weaker than \<open>+\<close>, so its first operand is the whole concatenation.
\<close>

definition ChromeInstaller_binary_name :: "world \<Rightarrow> string" where
  "ChromeInstaller_binary_name w =
     (if startswith (platform w) ''win'' then ''chromedriver'' @ ''.exe'' else [])"

definition ChromeInstaller_binary_path :: "installer \<Rightarrow> world \<Rightarrow> string" where
  "ChromeInstaller_binary_path self w = path_join w (driver_dir self w) (ChromeInstaller_binary_name w)"

definition chrome_mac_app :: string where
  "chrome_mac_app = ''/Applications/Google Chrome.app/Contents/MacOS/Google Chrome''"

definition chrome_reg_query :: "string list" where
  "chrome_reg_query =
     [''reg'', ''query'',
      ''HKEY_CURRENT_USER'' @ [backslash] @ ''Software'' @ [backslash] @ ''Google''
        @ [backslash] @ ''Chrome'' @ [backslash] @ ''BLBeacon'',
      ''/v'', ''version'']"

text \<open>
  The version text each platform branch of \<open>require_version\<close> computes. The last
  branch is the source's \<open>return ''\<close>: an empty version, which is not cached.
\<close>

definition ChromeInstaller_detect_version :: "world \<Rightarrow> string \<Rightarrow> error + string" where
  "ChromeInstaller_detect_version w p =
     (if p = ''linux'' then
        (case popen_read w [''chromium-browser'', ''--version''] of
           Inl e \<Rightarrow> Inl e
         | Inr out \<Rightarrow>
             Inr (strip (replace_with_empty (strip (replace_with_empty out ''Chromium''))
                          ''Google Chrome'')))
      else if p = ''mac'' then
        (case popen_read w [chrome_mac_app, ''--version''] of
           Inl e \<Rightarrow> Inl e
         | Inr out \<Rightarrow> Inr (strip (replace_with_empty out ''Google Chrome'')))
      else if p = ''win'' then
        (case popen_read w chrome_reg_query of
           Inl e \<Rightarrow> Inl e
         | Inr out \<Rightarrow> last_item (split_ws (strip out)))
      else Inr [])"

definition ChromeInstaller_require_version :: "string run" where
  "ChromeInstaller_require_version = (\<lambda>(self, w).
     case require_cache self of
       Some v \<Rightarrow> (Inr v, self, w)
     | None \<Rightarrow>
         (case ChromeInstaller_get_platform_architecture w of
            Inl e \<Rightarrow> (Inl e, self, w)
          | Inr (p, a) \<Rightarrow>
              (case ChromeInstaller_detect_version w p of
                 Inl e \<Rightarrow> (Inl e, self, w)
               | Inr version \<Rightarrow>
                   (Inr version,
                    if version \<noteq> [] then self\<lparr>require_cache := Some version\<rparr> else self,
                    w))))"

definition ChromeInstaller_current_version :: "string run" where
  "ChromeInstaller_current_version = (\<lambda>(self, w).
     case current_cache self of
       Some v \<Rightarrow> (Inr v, self, w)
     | None \<Rightarrow>
         (case check_output w (ChromeInstaller_binary_path self w) [''-v''] of
            Inl e \<Rightarrow> (Inl e, self, w)
          | Inr out \<Rightarrow>
              (case re_match_digits_dots out of
                 None \<Rightarrow> (Inl TypeError, self, w)
               | Some version \<Rightarrow>
                   (Inr version,
                    if version \<noteq> [] then self\<lparr>current_cache := Some version\<rparr> else self,
                    w))))"

definition chrome_base_url :: string where
  "chrome_base_url = ''https://chromedriver.storage.googleapis.com/''"

definition chrome_listing_url :: string where
  "chrome_listing_url = ''https://chromedriver.storage.googleapis.com''"

text \<open>
  The loop over the Key elements of the listing, in document order; an element without
  text has \<open>k.text = None\<close>, on which \<open>.find\<close> is an AttributeError. The loop's
  \<open>else\<close> branch raises when no element returned.
\<close>

fun scan_keys :: "string \<Rightarrow> string \<Rightarrow> string \<Rightarrow> string option list \<Rightarrow> error + string" where
  "scan_keys major plat arch [] = Inl NoMatchingDriver"
| "scan_keys major plat arch (k # ks) =
     (case k of
        None \<Rightarrow> Inl AttributeError
      | Some text \<Rightarrow>
          if str_find text (major @ ''.'') = 0
          then (case first_item (split_on (CHR ''/'') text) of
                  Inl e \<Rightarrow> Inl e
                | Inr d \<Rightarrow> Inr (chrome_base_url @ d @ ''/chromedriver_'' @ plat @ arch @ ''.zip''))
          else scan_keys major plat arch ks)"

definition ChromeInstaller_get_download_url :: "string run" where
  "ChromeInstaller_get_download_url = (\<lambda>(self, w).
     case ChromeInstaller_get_platform_architecture w of
       Inl e \<Rightarrow> (Inl e, self, w)
     | Inr (plat, arch) \<Rightarrow>
         bind ChromeInstaller_require_version (\<lambda>rv.
         bind (lift (first_item (split_on (CHR ''.'') rv))) (\<lambda>major.
         bind (urlopen chrome_listing_url) (\<lambda>resp.
           case content resp of
             XmlKeys ks \<Rightarrow> lift (scan_keys major plat arch ks)
           | _ \<Rightarrow> raise ParseError))) (self, w))"

definition ChromeInstaller_has_require_version :: "bool run" where
  "ChromeInstaller_has_require_version =
     bind ChromeInstaller_require_version (\<lambda>rv.
     bind (lift (first_item (split_on (CHR ''.'') rv))) (\<lambda>a.
     bind ChromeInstaller_current_version (\<lambda>cv.
     bind (lift (first_item (split_on (CHR ''.'') cv))) (\<lambda>b.
     ret (a = b)))))"

text \<open>
  The shared tail of the three \<open>download\<close> methods: \<open>os.access\<close>, \<open>os.chmod\<close>,
  \<open>return self.binary_path\<close>.
\<close>

definition ensure_executable :: "string \<Rightarrow> string run" where
  "ensure_executable p = (\<lambda>(self, w).
     if \<not> access_x_ok w p then bind (chmod_744 p) (\<lambda>_. ret p) (self, w)
     else (Inr p, self, w))"

text \<open>
  \<open>download\<close> in three parts: the condition of its \<open>if\<close> (the right operand
  of \<open>or\<close> is evaluated only when the file is there), the body of the \<open>if\<close>,
  and the method itself.
\<close>

definition ChromeInstaller_need_fetch :: "bool run" where
  "ChromeInstaller_need_fetch = (\<lambda>(self, w).
     if \<not> isfile w (ChromeInstaller_binary_path self w) then (Inr True, self, w)
     else bind ChromeInstaller_has_require_version (\<lambda>ok. ret (\<not> ok)) (self, w))"

definition ChromeInstaller_fetch :: "unit run" where
  "ChromeInstaller_fetch =
     bind ChromeInstaller_get_download_url (\<lambda>url.
     bind (urlopen url) (\<lambda>resp.
       if status resp \<noteq> 200 then raise URLError
       else (\<lambda>(self, w).
               zip_extract (content resp) (ChromeInstaller_binary_name w) (driver_dir self w) (self, w))))"

definition ChromeInstaller_download :: "string run" where
  "ChromeInstaller_download =
     bind ChromeInstaller_require_version (\<lambda>rv.
       if rv = [] then raise ChromeNotInstalled
       else
         bind ChromeInstaller_need_fetch (\<lambda>fetch.
         bind (if fetch then ChromeInstaller_fetch else ret ()) (\<lambda>_.
         (\<lambda>(self, w). ensure_executable (ChromeInstaller_binary_path self w) (self, w)))))"

subsection \<open>IeInstaller\<close>

text \<open>\<open>get_platform_architecture\<close> is \<open>pass\<close>: it returns None on every platform.\<close>

definition IeInstaller_get_platform_architecture :: "world \<Rightarrow> error + (string \<times> string) option" where
  "IeInstaller_get_platform_architecture w = Inr None"

definition IeInstaller_binary_name :: "world \<Rightarrow> string" where
  "IeInstaller_binary_name w = ''IEDriverServer.exe''"

definition IeInstaller_binary_path :: "installer \<Rightarrow> world \<Rightarrow> string" where
  "IeInstaller_binary_path self w = path_join w (driver_dir self w) (IeInstaller_binary_name w)"

definition IeInstaller_require_version :: "string run" where
  "IeInstaller_require_version = ret ''3.150.1''"

definition IeInstaller_current_version :: "string run" where
  "IeInstaller_current_version = (\<lambda>(self, w).
     case check_output w (IeInstaller_binary_path self w) [''-v''] of
       Inl e \<Rightarrow> (Inl e, self, w)
     | Inr out \<Rightarrow> (second_item (split_ws out), self, w))"

definition IeInstaller_get_download_url :: "string run" where
  "IeInstaller_get_download_url =
     bind IeInstaller_require_version (\<lambda>rv1.
     bind IeInstaller_require_version (\<lambda>rv2.
     ret (''https://selenium-release.storage.googleapis.com/'' @ slice_to_minus2 rv1
          @ ''/IEDriverServer_Win32_'' @ rv2 @ ''.zip'')))"

definition IeInstaller_has_require_version :: "bool run" where
  "IeInstaller_has_require_version =
     bind IeInstaller_require_version (\<lambda>rv.
     bind IeInstaller_current_version (\<lambda>cv.
     ret (rv = slice_to_minus2 cv)))"

definition IeInstaller_need_fetch :: "bool run" where
  "IeInstaller_need_fetch = (\<lambda>(self, w).
     if \<not> isfile w (IeInstaller_binary_path self w) then (Inr True, self, w)
     else bind IeInstaller_has_require_version (\<lambda>ok. ret (\<not> ok)) (self, w))"

definition IeInstaller_fetch :: "unit run" where
  "IeInstaller_fetch =
     bind IeInstaller_get_download_url (\<lambda>url.
     bind (urlopen url) (\<lambda>resp.
       if status resp \<noteq> 200 then raise URLError
       else (\<lambda>(self, w).
               zip_extract (content resp) (IeInstaller_binary_name w) (driver_dir self w) (self, w))))"

definition IeInstaller_download :: "string run" where
  "IeInstaller_download =
     bind IeInstaller_need_fetch (\<lambda>fetch.
     bind (if fetch then IeInstaller_fetch else ret ()) (\<lambda>_.
     (\<lambda>(self, w). ensure_executable (IeInstaller_binary_path self w) (self, w))))"

subsection \<open>FireFoxInstaller\<close>

definition FireFoxInstaller_binary_name :: "world \<Rightarrow> string" where
  "FireFoxInstaller_binary_name w =
     (if startswith (platform w) ''win'' then ''geckodriver'' @ ''.exe'' else [])"

definition FireFoxInstaller_binary_path :: "installer \<Rightarrow> world \<Rightarrow> string" where
  "FireFoxInstaller_binary_path self w = path_join w (driver_dir self w) (FireFoxInstaller_binary_name w)"

definition gecko_latest_url :: string where
  "gecko_latest_url = ''https://github.com/mozilla/geckodriver/releases/latest''"

definition FireFoxInstaller_require_version :: "string run" where
  "FireFoxInstaller_require_version = (\<lambda>(self, w).
     case require_cache self of
       Some v \<Rightarrow> (Inr v, self, w)
     | None \<Rightarrow>
         bind (urlopen gecko_latest_url) (\<lambda>resp.
           let url = final_url resp in
           if \<not> str_in ''/tag/'' url then raise GeckoReleaseNotFound
           else bind (lift (last_item (split_on (CHR ''/'') url))) (\<lambda>v.
                (\<lambda>(self, w). (Inr v, self\<lparr>require_cache := Some v\<rparr>, w)))) (self, w))"

definition FireFoxInstaller_current_version :: "string run" where
  "FireFoxInstaller_current_version = (\<lambda>(self, w).
     case current_cache self of
       Some v \<Rightarrow> (Inr v, self, w)
     | None \<Rightarrow>
         (case check_output w (FireFoxInstaller_binary_path self w) [''--version''] of
            Inl e \<Rightarrow> (Inl e, self, w)
          | Inr out \<Rightarrow>
              (case re_findall_gecko out of
                 [] \<Rightarrow> (Inl DriverVersionNotFound, self, w)
               | v0 # _ \<Rightarrow>
                   (Inr (''v'' @ v0),
                    if v0 \<noteq> [] then self\<lparr>current_cache := Some (''v'' @ v0)\<rparr> else self,
                    w))))"

definition FireFoxInstaller_get_platform_architecture :: "world \<Rightarrow> error + string \<times> string" where
  "FireFoxInstaller_get_platform_architecture w =
     (if startswith (platform w) ''linux'' \<and> maxsize w > 2 ^ 32 then Inr (''linux'', ''64'')
      else if platform w = ''darwin'' then Inr (''mac'', ''os'')
      else if startswith (platform w) ''win''
        then Inr (''win'', if endswith (machine w) ''64'' then ''64'' else ''32'')
      else Inl PlatformUnsupported)"

definition FireFoxInstaller_get_download_url :: "string run" where
  "FireFoxInstaller_get_download_url = (\<lambda>(self, w).
     case FireFoxInstaller_get_platform_architecture w of
       Inl e \<Rightarrow> (Inl e, self, w)
     | Inr (plat, arch) \<Rightarrow>
         (let compression = (if plat = ''win'' then ''zip'' else ''tar.gz'') in
          bind FireFoxInstaller_require_version (\<lambda>rv1.
          bind FireFoxInstaller_require_version (\<lambda>rv2.
          ret (''https://github.com/mozilla/geckodriver/releases/download/'' @ rv1
               @ ''/geckodriver-'' @ rv2 @ ''-'' @ plat @ arch @ ''.'' @ compression)))
            (self, w)))"

definition FireFoxInstaller_has_require_version :: "bool run" where
  "FireFoxInstaller_has_require_version =
     bind FireFoxInstaller_current_version (\<lambda>cv.
     bind FireFoxInstaller_require_version (\<lambda>rv.
     ret (cv = rv)))"

definition FireFoxInstaller_need_fetch :: "bool run" where
  "FireFoxInstaller_need_fetch = (\<lambda>(self, w).
     if \<not> isfile w (FireFoxInstaller_binary_path self w) then (Inr True, self, w)
     else bind FireFoxInstaller_has_require_version (\<lambda>ok. ret (\<not> ok)) (self, w))"

definition FireFoxInstaller_fetch :: "unit run" where
  "FireFoxInstaller_fetch =
     bind FireFoxInstaller_get_download_url (\<lambda>url.
     bind (urlopen url) (\<lambda>resp.
       if status resp \<noteq> 200 then raise URLError
       else (\<lambda>(self, w).
               (if startswith (platform w) ''win''
                then zip_extract (content resp) (FireFoxInstaller_binary_name w) (driver_dir self w)
                else tar_extract (content resp) (FireFoxInstaller_binary_name w) (driver_dir self w))
                 (self, w))))"

definition FireFoxInstaller_download :: "string run" where
  "FireFoxInstaller_download =
     bind FireFoxInstaller_need_fetch (\<lambda>fetch.
     bind (if fetch then FireFoxInstaller_fetch else ret ()) (\<lambda>_.
     (\<lambda>(self, w). ensure_executable (FireFoxInstaller_binary_path self w) (self, w))))"

subsection \<open>Method dispatch on the object's class, and InstallInterface.install\<close>

definition binary_name :: "installer \<Rightarrow> world \<Rightarrow> string" where
  "binary_name self w =
     (case cls self of
        Chrome \<Rightarrow> ChromeInstaller_binary_name w
      | Ie \<Rightarrow> IeInstaller_binary_name w
      | FireFox \<Rightarrow> FireFoxInstaller_binary_name w)"

definition binary_path :: "installer \<Rightarrow> world \<Rightarrow> string" where
  "binary_path self w = path_join w (driver_dir self w) (binary_name self w)"

definition download :: "string run" where
  "download = (\<lambda>(self, w).
     (case cls self of
        Chrome \<Rightarrow> ChromeInstaller_download
      | Ie \<Rightarrow> IeInstaller_download
      | FireFox \<Rightarrow> FireFoxInstaller_download) (self, w))"

definition has_require_version :: "bool run" where
  "has_require_version = (\<lambda>(self, w).
     (case cls self of
        Chrome \<Rightarrow> ChromeInstaller_has_require_version
      | Ie \<Rightarrow> IeInstaller_has_require_version
      | FireFox \<Rightarrow> FireFoxInstaller_has_require_version) (self, w))"

text \<open>
  \<open>self.driver_dir + ";" if sys.platform.startswith('win') else ":" + os.environ['PATH']\<close>:
  again the conditional expression is the outermost operator. \<open>in\<close> on the two strings
  is the substring test.
\<close>

definition install :: "string run" where
  "install =
     bind download (\<lambda>_. (\<lambda>(self, w).
       let d = driver_dir self w;
           w' = (case environ_PATH w of
                   None \<Rightarrow> w\<lparr>environ_PATH := Some d\<rparr>
                 | Some path \<Rightarrow>
                     if \<not> str_in d path
                     then w\<lparr>environ_PATH :=
                            Some (if startswith (platform w) ''win'' then d @ '';''
                                  else '':'' @ path)\<rparr>
                     else w)
       in (Inr (binary_path self w'), self, w')))"

section \<open>helper.py\<close>

text \<open>
  The option builders wrap the driver library's option objects. Of those objects the
  model keeps what the builders touch: the two flags and the initial URL of the IE
  options, the argument list and the experimental options of the Chrome options, and
  the preferences of the Firefox profile. Builders are objects in a store, so that a
  method can return its receiver; \<open>stdout\<close> collects what \<open>print\<close> writes. The
  four printed messages are fixed literals of the source, named here by what they say.
\<close>

datatype pref_value = PStr string | PBool bool | PInt int

datatype exp_value = ExpList "string list" | ExpBool bool

record ie_driver_options =
  ignore_zoom_level :: bool
  ignore_protected_mode_settings :: bool
  initial_browser_url :: "string option"

record chrome_driver_options =
  arguments :: "string list"
  experimental_options :: "string \<rightharpoonup> exp_value"

record firefox_driver_options =
  preferences :: "string \<rightharpoonup> pref_value"

datatype options_obj =
    IeOptions ie_driver_options
  | ChromeOptions chrome_driver_options
  | FirefoxOptions firefox_driver_options

datatype notice =
    IeCheckProtectedMode
  | IeCheckZoom
  | IeUserAgentUnsupported
  | ChromeStartUrlUnsupported

record py =
  heap :: "nat \<rightharpoonup> options_obj"
  stdout :: "notice list"

type_synonym 'a pyrun = "py \<Rightarrow> (error + 'a) \<times> py"

subsection \<open>The driver library's setters\<close>

text \<open>\<open>add_argument\<close> appends a non-empty argument and raises ValueError on an empty one.\<close>

definition add_argument :: "chrome_driver_options \<Rightarrow> string \<Rightarrow> error + chrome_driver_options" where
  "add_argument opts arg =
     (if arg = [] then Inl ValueError else Inr (opts\<lparr>arguments := arguments opts @ [arg]\<rparr>))"

definition add_experimental_option ::
  "chrome_driver_options \<Rightarrow> string \<Rightarrow> exp_value \<Rightarrow> chrome_driver_options" where
  "add_experimental_option opts name v =
     opts\<lparr>experimental_options := (experimental_options opts)(name \<mapsto> v)\<rparr>"

definition set_preference ::
  "firefox_driver_options \<Rightarrow> string \<Rightarrow> pref_value \<Rightarrow> firefox_driver_options" where
  "set_preference opts key v = opts\<lparr>preferences := (preferences opts)(key \<mapsto> v)\<rparr>"

subsection \<open>init_options\<close>

definition IeOptions_init_options :: ie_driver_options where
  "IeOptions_init_options =
     \<lparr>ignore_zoom_level = True, ignore_protected_mode_settings = True,
      initial_browser_url = None\<rparr>"

definition ChromeOptions_init_options :: "error + chrome_driver_options" where
  "ChromeOptions_init_options =
     (case add_argument \<lparr>arguments = [], experimental_options = Map.empty\<rparr>
             ''--disable-blink-features=AutomationControlled'' of
        Inl e \<Rightarrow> Inl e
      | Inr o1 \<Rightarrow>
          Inr (add_experimental_option
                 (add_experimental_option o1 ''excludeSwitches'' (ExpList [''enable-automation'']))
                 ''useAutomationExtension'' (ExpBool False)))"

text \<open>The argument is the preference set a fresh profile of the library starts with.\<close>

definition FirefoxOptions_init_options :: "(string \<rightharpoonup> pref_value) \<Rightarrow> firefox_driver_options" where
  "FirefoxOptions_init_options defaults =
     set_preference
       (set_preference \<lparr>preferences = defaults\<rparr> ''dom.webdriver.enabled'' (PBool False))
       ''useAutomationExtension'' (PBool False)"

subsection \<open>set_user_agent and set_start_url\<close>

definition IeOptions_set_user_agent :: "nat \<Rightarrow> string \<Rightarrow> nat pyrun" where
  "IeOptions_set_user_agent self user_agent st =
     (Inr self, st\<lparr>stdout := stdout st @ [IeUserAgentUnsupported]\<rparr>)"

definition IeOptions_set_start_url :: "nat \<Rightarrow> string \<Rightarrow> nat pyrun" where
  "IeOptions_set_start_url self url st =
     (case heap st self of
        Some (IeOptions opts) \<Rightarrow>
          (Inr self,
           st\<lparr>heap := (heap st)(self \<mapsto> IeOptions (opts\<lparr>initial_browser_url := Some url\<rparr>))\<rparr>)
      | _ \<Rightarrow> (Inl AttributeError, st))"

definition ChromeOptions_set_user_agent :: "nat \<Rightarrow> string \<Rightarrow> nat pyrun" where
  "ChromeOptions_set_user_agent self user_agent st =
     (case heap st self of
        Some (ChromeOptions opts) \<Rightarrow>
          (case add_argument opts (''user-agent='' @ user_agent) of
             Inl e \<Rightarrow> (Inl e, st)
           | Inr opts' \<Rightarrow> (Inr self, st\<lparr>heap := (heap st)(self \<mapsto> ChromeOptions opts')\<rparr>))
      | _ \<Rightarrow> (Inl AttributeError, st))"

definition ChromeOptions_set_start_url :: "nat \<Rightarrow> string \<Rightarrow> nat pyrun" where
  "ChromeOptions_set_start_url self url st =
     (Inr self, st\<lparr>stdout := stdout st @ [ChromeStartUrlUnsupported]\<rparr>)"

definition FirefoxOptions_set_user_agent :: "nat \<Rightarrow> string \<Rightarrow> nat pyrun" where
  "FirefoxOptions_set_user_agent self user_agent st =
     (case heap st self of
        Some (FirefoxOptions opts) \<Rightarrow>
          (Inr self,
           st\<lparr>heap := (heap st)(self \<mapsto>
                  FirefoxOptions (set_preference opts ''general.useragent.override''
                                    (PStr user_agent)))\<rparr>)
      | _ \<Rightarrow> (Inl AttributeError, st))"

definition FirefoxOptions_set_start_url :: "nat \<Rightarrow> string \<Rightarrow> nat pyrun" where
  "FirefoxOptions_set_start_url self url st =
     (case heap st self of
        Some (FirefoxOptions opts) \<Rightarrow>
          (Inr self,
           st\<lparr>heap := (heap st)(self \<mapsto>
                  FirefoxOptions
                    (set_preference
                       (set_preference
                          (set_preference opts ''browser.startup.homepage''
                             (PStr ''https://google.com''))
                          ''browser.startup.blankWindow'' (PBool False))
                       ''browser.startup.page'' (PInt 1)))\<rparr>)
      | _ \<Rightarrow> (Inl AttributeError, st))"

text \<open>A call \<open>obj.set_user_agent(v)\<close> runs the method of the class of \<open>obj\<close>.\<close>

definition set_user_agent :: "nat \<Rightarrow> string \<Rightarrow> nat pyrun" where
  "set_user_agent self user_agent st =
     (case heap st self of
        None \<Rightarrow> (Inl AttributeError, st)
      | Some (IeOptions _) \<Rightarrow> IeOptions_set_user_agent self user_agent st
      | Some (ChromeOptions _) \<Rightarrow> ChromeOptions_set_user_agent self user_agent st
      | Some (FirefoxOptions _) \<Rightarrow> FirefoxOptions_set_user_agent self user_agent st)"

definition set_start_url :: "nat \<Rightarrow> string \<Rightarrow> nat pyrun" where
  "set_start_url self url st =
     (case heap st self of
        None \<Rightarrow> (Inl AttributeError, st)
      | Some (IeOptions _) \<Rightarrow> IeOptions_set_start_url self url st
      | Some (ChromeOptions _) \<Rightarrow> ChromeOptions_set_start_url self url st
      | Some (FirefoxOptions _) \<Rightarrow> FirefoxOptions_set_start_url self url st)"

section \<open>Example machines and builder objects\<close>

text \<open>
  A Windows machine with the IE and Firefox drivers already unpacked in the driver
  directory, and the release host answering the redirect lookup with tag v0.33.0.
\<close>

definition win_dir :: string where
  "win_dir = ''C:'' @ [backslash] @ ''drv''"

definition win_ie_path :: string where
  "win_ie_path = win_dir @ [backslash] @ ''IEDriverServer.exe''"

definition win_gecko_path :: string where
  "win_gecko_path = win_dir @ [backslash] @ ''geckodriver.exe''"

definition win_path_var :: string where
  "win_path_var = ''C:'' @ [backslash] @ ''Windows''"

definition ie_driver :: driver_file where
  "ie_driver = \<lparr>x_ok = True, run = (\<lambda>args. Exited 0 ''IEDriverServer.exe 3.150.1.0 (32-bit)'')\<rparr>"

definition gecko_driver :: driver_file where
  "gecko_driver =
     \<lparr>x_ok = True, run = (\<lambda>args. Exited 0 ''geckodriver 0.33.0 (a80e5fd61076 2023-04-02)'')\<rparr>"

definition gecko_release :: response where
  "gecko_release =
     \<lparr>status = 200,
      final_url = ''https://github.com/mozilla/geckodriver/releases/tag/v0.33.0'',
      content = Garbage\<rparr>"

definition win_world :: world where
  "win_world =
     \<lparr>platform = ''win32'', maxsize = 2 ^ 63 - 1, machine = ''AMD64'',
      cwd_abspath = win_dir, module_dir = win_dir,
      environ_PATH = Some win_path_var,
      files = [win_ie_path \<mapsto> ie_driver, win_gecko_path \<mapsto> gecko_driver],
      commands = (\<lambda>argv. NotLaunched),
      net = (\<lambda>u. if u = gecko_latest_url then Some gecko_release else None),
      net_log = []\<rparr>"

text \<open>\<open>InstallInterface.__init__\<close>: no version attribute is set yet.\<close>

definition new_installer :: "family \<Rightarrow> bool \<Rightarrow> installer" where
  "new_installer c flag = \<lparr>cls = c, cwd = flag, require_cache = None, current_cache = None\<rparr>"

text \<open>
  A 64-bit Linux machine on which \<open>chromium-browser --version\<close> reports 114.0.5735.90
  and the driver bucket lists three releases.
\<close>

definition chrome_listing :: response where
  "chrome_listing =
     \<lparr>status = 200, final_url = chrome_listing_url,
      content = XmlKeys [Some ''113.0.5672.63/chromedriver_linux64.zip'',
                         Some ''114.0.5735.16/chromedriver_linux64.zip'',
                         Some ''114.0.5735.90/chromedriver_linux64.zip'']\<rparr>"

definition linux_world :: world where
  "linux_world =
     \<lparr>platform = ''linux'', maxsize = 2 ^ 63 - 1, machine = ''x86_64'',
      cwd_abspath = ''/opt/drv'', module_dir = ''/opt/drv'',
      environ_PATH = Some ''/usr/bin'',
      files = Map.empty,
      commands = (\<lambda>argv. if argv = [''chromium-browser'', ''--version'']
                          then Exited 0 (''Chromium 114.0.5735.90 '' @ [newline])
                          else NotLaunched),
      net = (\<lambda>u. if u = chrome_listing_url then Some chrome_listing else None),
      net_log = []\<rparr>"

text \<open>The same machine reporting a platform none of the installers knows.\<close>

definition sunos_world :: world where
  "sunos_world = linux_world\<lparr>platform := ''sunos5''\<rparr>"

text \<open>
  The interpreter after \<open>IeOptions()\<close>, \<open>ChromeOptions()\<close> and \<open>FirefoxOptions()\<close>
  were constructed, in this order, the Firefox profile starting without preferences.
\<close>

definition builders :: py where
  "builders =
     \<lparr>heap = [0 \<mapsto> IeOptions IeOptions_init_options,
              1 \<mapsto> ChromeOptions
                    \<lparr>arguments = [''--disable-blink-features=AutomationControlled''],
                     experimental_options =
                       [''excludeSwitches'' \<mapsto> ExpList [''enable-automation''],
                        ''useAutomationExtension'' \<mapsto> ExpBool False]\<rparr>,
              2 \<mapsto> FirefoxOptions (FirefoxOptions_init_options Map.empty)],
      stdout = [IeCheckProtectedMode, IeCheckZoom]\<rparr>"

text \<open>The value of a preference in the profile of the Firefox builder at a reference.\<close>

definition profile_pref :: "py \<Rightarrow> nat \<Rightarrow> string \<Rightarrow> pref_value option" where
  "profile_pref st r key =
     (case heap st r of Some (FirefoxOptions opts) \<Rightarrow> preferences opts key | _ \<Rightarrow> None)"

text \<open>The Linux machine with a bucket listing whose first 114 release is 114.0.5735.90.\<close>

definition chrome_listing_exact :: response where
  "chrome_listing_exact =
     \<lparr>status = 200, final_url = chrome_listing_url,
      content = XmlKeys (map Some [''113.0.5672.63/chromedriver_linux64.zip'',
                                   ''114.0.5735.90/chromedriver_linux64.zip'',
                                   ''114.0.5735.90/chromedriver_mac64.zip''])\<rparr>"

definition linux_world_exact :: world where
  "linux_world_exact =
     linux_world\<lparr>net := (\<lambda>u. if u = chrome_listing_url then Some chrome_listing_exact else None)\<rparr>"


text \<open>
  The Windows machine with the Firefox driver of release 10.33.0 in the driver directory
  and the release host answering the redirect lookup with tag v10.33.0.
\<close>

definition gecko_driver_v10 :: driver_file where
  "gecko_driver_v10 =
     \<lparr>x_ok = True, run = (\<lambda>args. Exited 0 ''geckodriver 10.33.0 (a80e5fd61076 2023-04-02)'')\<rparr>"

definition gecko_release_v10 :: response where
  "gecko_release_v10 =
     \<lparr>status = 200,
      final_url = ''https://github.com/mozilla/geckodriver/releases/tag/v10.33.0'',
      content = Garbage\<rparr>"

definition win_world_v10 :: world where
  "win_world_v10 =
     win_world\<lparr>files := [win_gecko_path \<mapsto> gecko_driver_v10],
                net := (\<lambda>u. if u = gecko_latest_url then Some gecko_release_v10 else None)\<rparr>"

text \<open>
  The Firefox installer and the Windows machine after one \<open>download()\<close>: both
  versions are cached and the redirect lookup is in the log.
\<close>

definition ff_cached :: installer where
  "ff_cached =
     \<lparr>cls = FireFox, cwd = True, require_cache = Some ''v0.33.0'',
      current_cache = Some ''v0.33.0''\<rparr>"

definition win_world_fetched :: world where
  "win_world_fetched = win_world\<lparr>net_log := [gecko_latest_url]\<rparr>"

section \<open>The specification's words\<close>

text \<open>The leading segment of a version: what stands before its first dot.\<close>

definition leading_segment :: "string \<Rightarrow> string" where
  "leading_segment s = takeWhile (\<lambda>c. c \<noteq> CHR ''.'') s"

text \<open>A string with its last two characters removed.\<close>

definition drop_last_two :: "string \<Rightarrow> string" where
  "drop_last_two s = butlast (butlast s)"

text \<open>The platforms on which platform detection returns a pair.\<close>

definition supported_platform :: "world \<Rightarrow> bool" where
  "supported_platform w =
     ((startswith (platform w) ''linux'' \<and> 2 ^ 32 < maxsize w)
      \<or> platform w = ''darwin''
      \<or> startswith (platform w) ''win'')"

text \<open>The entries of the search path: the variable split at the platform's separator.\<close>

definition path_entries :: "world \<Rightarrow> string list" where
  "path_entries w =
     (case environ_PATH w of
        None \<Rightarrow> []
      | Some p \<Rightarrow> split_on (if is_win w then CHR '';'' else CHR '':'') p)"

section \<open>Properties of runs\<close>

text \<open>
  A run keeps a property of the installer object when the property survives it, however
  the run ends; it sets the property when the property holds whenever the run returns.
  \<open>cached_req Q\<close> says that a required version is cached and satisfies \<open>Q\<close>.
\<close>

definition keeps :: "(installer \<Rightarrow> bool) \<Rightarrow> 'a run \<Rightarrow> bool" where
  "keeps P m = (\<forall>self w r self' w'. m (self, w) = (r, self', w') \<longrightarrow> P self \<longrightarrow> P self')"

definition sets :: "(installer \<Rightarrow> bool) \<Rightarrow> 'a run \<Rightarrow> bool" where
  "sets P m = (\<forall>self w x self' w'. m (self, w) = (Inr x, self', w') \<longrightarrow> P self')"

definition cached_req :: "(string \<Rightarrow> bool) \<Rightarrow> installer \<Rightarrow> bool" where
  "cached_req Q self = (case require_cache self of None \<Rightarrow> False | Some v \<Rightarrow> Q v)"

text \<open>What a run leaves alone: the files, the platform and the directories, and the flag.\<close>

definition same_disk :: "installer \<times> world \<Rightarrow> installer \<times> world \<Rightarrow> bool" where
  "same_disk s s' =
     (cwd (fst s') = cwd (fst s) \<and> files (snd s') = files (snd s)
      \<and> net (snd s') = net (snd s) \<and> platform (snd s') = platform (snd s)
      \<and> cwd_abspath (snd s') = cwd_abspath (snd s) \<and> module_dir (snd s') = module_dir (snd s))"

section \<open>Auxiliary facts\<close>

subsection \<open>The string operations and the example machines\<close>

lemma split_on_nonempty: "split_on c s \<noteq> []"
  by (induction s) (auto split: list.splits)

lemma hd_split_on: "hd (split_on c s) = takeWhile (\<lambda>x. x \<noteq> c) s"
  by (induction s) (auto split: list.splits simp: split_on_nonempty)

lemma first_item_split_on: "first_item (split_on c s) = Inr (takeWhile (\<lambda>x. x \<noteq> c) s)"
proof (cases "split_on c s")
  case Nil
  then show ?thesis using split_on_nonempty by blast
next
  case (Cons w ws)
  then have "w = hd (split_on c s)" by simp
  with Cons show ?thesis by (simp add: first_item_def hd_split_on)
qed

lemma slice_to_minus2_butlast: "slice_to_minus2 s = butlast (butlast s)"
  by (simp add: slice_to_minus2_def butlast_conv_take numeral_2_eq_2)

lemma win_world_files:
  "files win_world win_ie_path = Some ie_driver"
  "files win_world win_gecko_path = Some gecko_driver"
  by (simp_all add: win_world_def win_ie_path_def win_gecko_path_def)

lemma win_world_sel:
  "platform win_world = ''win32''"
  "machine win_world = ''AMD64''"
  "cwd_abspath win_world = win_dir"
  "module_dir win_world = win_dir"
  "environ_PATH win_world = Some win_path_var"
  "net win_world gecko_latest_url = Some gecko_release"
  "net_log win_world = []"
  by (simp_all add: win_world_def)

lemma win_world_is_win: "is_win win_world" "startswith (platform win_world) ''win''"
  by (simp_all add: is_win_def startswith_def win_world_def)

lemma driver_dir_win: "driver_dir (new_installer c True) win_world = win_dir"
  by (simp add: driver_dir_def new_installer_def win_world_def)

lemma path_join_win_dir: "path_join win_world win_dir name = win_dir @ [backslash] @ name"
  by (simp add: path_join_def win_world_is_win win_dir_def backslash_def)

lemma IeInstaller_binary_path_win: "IeInstaller_binary_path (new_installer Ie True) win_world = win_ie_path"
  by (simp add: IeInstaller_binary_path_def IeInstaller_binary_name_def driver_dir_win path_join_win_dir
      win_ie_path_def)

lemma FireFoxInstaller_binary_path_win:
  "FireFoxInstaller_binary_path (new_installer FireFox True) win_world = win_gecko_path"
  by (simp add: FireFoxInstaller_binary_path_def FireFoxInstaller_binary_name_def driver_dir_win
      path_join_win_dir win_gecko_path_def win_world_is_win)

lemma ie_current_version_win:
  "IeInstaller_current_version (new_installer Ie True, win_world)
     = (Inr ''3.150.1.0'', new_installer Ie True, win_world)"
  by (simp add: IeInstaller_current_version_def check_output_def IeInstaller_binary_path_win win_world_files
      ie_driver_def second_item_def split_ws_def isspace_def)

lemma win_not_linux: "startswith p ''win'' \<Longrightarrow> \<not> startswith p ''linux'' \<and> p \<noteq> ''darwin''"
  by (auto simp: startswith_def prefix_def)

lemma path_join_empty_posix:
  "\<not> is_win w \<Longrightarrow>
   path_join w d [] = (if d = [] \<or> endswith d ''/'' then d else d @ ''/'')"
  by (simp add: path_join_def startswith_def)

lemma path_join_name_win:
  "is_win w \<Longrightarrow> endswith (path_join w d name) name"
  by (simp add: path_join_def endswith_def suffix_def)

lemma new_installer_sel:
  "cls (new_installer c f) = c"
  "cwd (new_installer c f) = f"
  "require_cache (new_installer c f) = None"
  "current_cache (new_installer c f) = None"
  by (simp_all add: new_installer_def)

subsection \<open>The IE installer on the Windows machine\<close>

lemma ie_has_require_version_win:
  "IeInstaller_has_require_version (new_installer Ie True, win_world)
     = (Inr True, new_installer Ie True, win_world)"
  by (simp add: IeInstaller_has_require_version_def IeInstaller_require_version_def bind_def ret_def
      ie_current_version_win slice_to_minus2_def)

lemma ie_download_win:
  "IeInstaller_download (new_installer Ie True, win_world)
     = (Inr win_ie_path, new_installer Ie True, win_world)"
proof -
  have present: "isfile win_world win_ie_path"
    by (simp add: isfile_def win_world_files)
  have exec: "access_x_ok win_world win_ie_path"
    by (simp add: access_x_ok_def win_world_files ie_driver_def)
  show ?thesis
    by (simp add: IeInstaller_download_def IeInstaller_need_fetch_def bind_def ret_def IeInstaller_binary_path_win
        present exec ie_has_require_version_win ensure_executable_def)
qed

lemma ie_install_win:
  "install (new_installer Ie True, win_world)
     = (Inr win_ie_path, new_installer Ie True,
        win_world\<lparr>environ_PATH := Some (win_dir @ '';'')\<rparr>)"
proof -
  have dl: "download (new_installer Ie True, win_world)
     = (Inr win_ie_path, new_installer Ie True, win_world)"
    by (simp add: download_def new_installer_def ie_download_win [unfolded new_installer_def])
  have not_in: "\<not> str_in win_dir win_path_var"
    by (simp add: str_in_def win_dir_def win_path_var_def backslash_def sublist_Cons_right)
  have bp: "binary_path (new_installer Ie True) (win_world\<lparr>environ_PATH := Some (win_dir @ '';'')\<rparr>)
              = win_ie_path"
    by (simp add: binary_path_def binary_name_def IeInstaller_binary_name_def driver_dir_def
        new_installer_def win_world_sel path_join_def is_win_def startswith_def win_ie_path_def
        win_dir_def backslash_def)
  show ?thesis
    by (simp add: install_def bind_def dl driver_dir_win win_world_sel not_in startswith_def bp)
qed

subsection \<open>The Chrome installer on the Linux machines\<close>

lemma linux_world_sel:
  "platform linux_world = ''linux''"
  "maxsize linux_world = 2 ^ 63 - 1"
  "cwd_abspath linux_world = ''/opt/drv''"
  "module_dir linux_world = ''/opt/drv''"
  "environ_PATH linux_world = Some ''/usr/bin''"
  "files linux_world = Map.empty"
  "commands linux_world [''chromium-browser'', ''--version'']
     = Exited 0 (''Chromium 114.0.5735.90 '' @ [newline])"
  "net linux_world chrome_listing_url = Some chrome_listing"
  "net_log linux_world = []"
  by (simp_all add: linux_world_def)

lemma ChromeInstaller_gpa_linux: "ChromeInstaller_get_platform_architecture linux_world = Inr (''linux'', ''64'')"
  by (simp add: ChromeInstaller_get_platform_architecture_def linux_world_sel startswith_def)

lemma ChromeInstaller_require_version_linux:
  "ChromeInstaller_require_version (new_installer Chrome True, linux_world)
     = (Inr ''114.0.5735.90'',
        (new_installer Chrome True)\<lparr>require_cache := Some ''114.0.5735.90''\<rparr>, linux_world)"
  by (simp add: ChromeInstaller_require_version_def new_installer_def ChromeInstaller_gpa_linux
      ChromeInstaller_detect_version_def popen_read_def linux_world_sel strip_def replace_with_empty_def
      isspace_def newline_def)

lemma find_at_range: "find_at sub i t = - 1 \<or> int i \<le> find_at sub i t"
proof (induction t arbitrary: i)
  case Nil
  then show ?case by simp
next
  case (Cons c cs)
  from Cons.IH [of "Suc i"] show ?case by auto
qed

lemma find_at_here: "find_at sub i t = int i \<longleftrightarrow> prefix sub t"
proof (cases t)
  case Nil
  then show ?thesis by simp
next
  case (Cons c cs)
  from find_at_range [of sub "Suc i" cs] have "find_at sub (Suc i) cs \<noteq> int i" by auto
  with Cons show ?thesis by simp
qed

lemma str_find_zero: "str_find s sub = 0 \<longleftrightarrow> prefix sub s"
  using find_at_here [of sub 0 s] by (simp add: str_find_def)

lemma scan_keys_find:
  "scan_keys major plat arch (map Some ks) =
     (case find (\<lambda>t. prefix (major @ ''.'') t) ks of
        None \<Rightarrow> Inl NoMatchingDriver
      | Some t \<Rightarrow>
          Inr (chrome_base_url @ takeWhile (\<lambda>c. c \<noteq> CHR ''/'') t
               @ ''/chromedriver_'' @ plat @ arch @ ''.zip''))"
  by (induction ks) (simp_all add: str_find_zero first_item_split_on)

lemma ChromeInstaller_require_version_world:
  "ChromeInstaller_require_version (self, w) = (r, self', w') \<Longrightarrow> w' = w"
  by (auto simp: ChromeInstaller_require_version_def split: option.splits sum.splits prod.splits)

lemma ChromeInstaller_require_version_linux_exact:
  "ChromeInstaller_require_version (new_installer Chrome True, linux_world_exact)
     = (Inr ''114.0.5735.90'',
        (new_installer Chrome True)\<lparr>require_cache := Some ''114.0.5735.90''\<rparr>, linux_world_exact)"
  by (simp add: ChromeInstaller_require_version_def new_installer_def
      ChromeInstaller_get_platform_architecture_def linux_world_exact_def
      ChromeInstaller_detect_version_def popen_read_def linux_world_sel strip_def replace_with_empty_def
      isspace_def newline_def startswith_def)


lemma ChromeInstaller_require_version_cases:
  "(\<exists>e. ChromeInstaller_require_version s = (Inl e, s))
   \<or> ChromeInstaller_require_version s = (Inr [], s)
   \<or> (\<exists>rv. rv \<noteq> [] \<and> ChromeInstaller_require_version s = (Inr rv, (fst s)\<lparr>require_cache := Some rv\<rparr>, snd s))"
  by (cases s) (auto simp: ChromeInstaller_require_version_def split: option.splits sum.splits)

subsection \<open>The version the Firefox installer reads from its driver\<close>

lemma check_output_gecko_win:
  "check_output win_world (FireFoxInstaller_binary_path (new_installer FireFox True) win_world) [''--version'']
     = Inr ''geckodriver 0.33.0 (a80e5fd61076 2023-04-02)''"
  by (simp add: check_output_def FireFoxInstaller_binary_path_win win_world_files gecko_driver_def)

lemma search_gecko_win:
  "search_gecko ''geckodriver 0.33.0 (a80e5fd61076 2023-04-02)''
     = Some (''0.33.0'', '' (a80e5fd61076 2023-04-02)'')"
  by (simp add: match_triple_def is_digit_def newline_def)

lemma re_findall_gecko_win:
  "re_findall_gecko ''geckodriver 0.33.0 (a80e5fd61076 2023-04-02)''
     = ''0.33.0'' # re_findall_gecko '' (a80e5fd61076 2023-04-02)''"
  by (subst re_findall_gecko.simps) (simp only: search_gecko_win option.case prod.case)

lemma FireFoxInstaller_current_version_win:
  "FireFoxInstaller_current_version (new_installer FireFox True, win_world)
     = (Inr ''v0.33.0'', (new_installer FireFox True)\<lparr>current_cache := Some ''v0.33.0''\<rparr>,
        win_world)"
  by (simp add: FireFoxInstaller_current_version_def new_installer_sel check_output_gecko_win
      re_findall_gecko_win)

lemma win_world_v10_sel:
  "files win_world_v10 win_gecko_path = Some gecko_driver_v10"
  "net win_world_v10 gecko_latest_url = Some gecko_release_v10"
  "net_log win_world_v10 = []"
  by (simp_all add: win_world_v10_def win_world_sel)

lemma FireFoxInstaller_binary_path_v10:
  "FireFoxInstaller_binary_path (new_installer FireFox True) win_world_v10 = win_gecko_path"
  by (simp add: FireFoxInstaller_binary_path_def FireFoxInstaller_binary_name_def driver_dir_def
      new_installer_def win_world_v10_def win_world_sel path_join_def is_win_def
      startswith_def win_gecko_path_def win_dir_def backslash_def)

lemma check_output_gecko_v10:
  "check_output win_world_v10 (FireFoxInstaller_binary_path (new_installer FireFox True) win_world_v10)
     [''--version''] = Inr ''geckodriver 10.33.0 (a80e5fd61076 2023-04-02)''"
  by (simp add: check_output_def FireFoxInstaller_binary_path_v10 win_world_v10_sel
      gecko_driver_v10_def)

lemma search_gecko_v10:
  "search_gecko ''geckodriver 10.33.0 (a80e5fd61076 2023-04-02)''
     = Some (''0.33.0'', '' (a80e5fd61076 2023-04-02)'')"
  by (simp add: match_triple_def is_digit_def newline_def)

lemma re_findall_gecko_v10:
  "re_findall_gecko ''geckodriver 10.33.0 (a80e5fd61076 2023-04-02)''
     = ''0.33.0'' # re_findall_gecko '' (a80e5fd61076 2023-04-02)''"
  by (subst re_findall_gecko.simps) (simp only: search_gecko_v10 option.case prod.case)

lemma FireFoxInstaller_current_version_v10:
  "FireFoxInstaller_current_version (new_installer FireFox True, win_world_v10)
     = (Inr ''v0.33.0'', (new_installer FireFox True)\<lparr>current_cache := Some ''v0.33.0''\<rparr>,
        win_world_v10)"
  by (simp add: FireFoxInstaller_current_version_def new_installer_sel check_output_gecko_v10
      re_findall_gecko_v10)

lemma gecko_release_v10_tag:
  "str_in ''/tag/'' (final_url gecko_release_v10)"
  "last_item (split_on (CHR ''/'') (final_url gecko_release_v10)) = Inr ''v10.33.0''"
  by (simp_all add: gecko_release_v10_def str_in_def sublist_Cons_right last_item_def)

lemma FireFoxInstaller_require_version_v10:
  "require_cache self = None \<Longrightarrow>
   fst (FireFoxInstaller_require_version (self, win_world_v10)) = Inr ''v10.33.0''"
  by (simp add: FireFoxInstaller_require_version_def bind_def urlopen_def win_world_v10_sel
      lift_def gecko_release_v10_tag)

lemma FireFoxInstaller_has_require_version_v10:
  "fst (FireFoxInstaller_has_require_version (new_installer FireFox True, win_world_v10))
     = Inr False"
proof -
  have "fst (FireFoxInstaller_require_version
          ((new_installer FireFox True)\<lparr>current_cache := Some ''v0.33.0''\<rparr>, win_world_v10))
     = Inr ''v10.33.0''"
    by (rule FireFoxInstaller_require_version_v10) (simp add: new_installer_sel)
  then show ?thesis
    by (cases "FireFoxInstaller_require_version
          ((new_installer FireFox True)\<lparr>current_cache := Some ''v0.33.0''\<rparr>, win_world_v10)")
       (simp add: FireFoxInstaller_has_require_version_def bind_def ret_def
          FireFoxInstaller_current_version_v10)
qed

subsection \<open>What the runs keep and set\<close>

lemma keepsD: "keeps P m \<Longrightarrow> m s = (r, s') \<Longrightarrow> P (fst s) \<Longrightarrow> P (fst s')"
  unfolding keeps_def by (cases s, cases s') (simp, blast)

lemma setsD: "sets P m \<Longrightarrow> m s = (Inr x, s') \<Longrightarrow> P (fst s')"
  unfolding sets_def by (cases s, cases s') (simp, blast)

lemma bind_InrE:
  assumes "bind m f s = (Inr y, s')"
  obtains x s1 where "m s = (Inr x, s1)" "f x s1 = (Inr y, s')"
  using assms unfolding bind_def
  by (cases "m s") (auto split: sum.splits)

lemma keeps_ret: "keeps P (ret x)"
  by (simp add: keeps_def ret_def)

lemma keeps_raise: "keeps P (raise e)"
  by (simp add: keeps_def raise_def)

lemma keeps_lift: "keeps P (lift r)"
  by (simp add: keeps_def lift_def)

lemma keeps_bind: "keeps P m \<Longrightarrow> (\<And>x. keeps P (f x)) \<Longrightarrow> keeps P (bind m f)"
  unfolding keeps_def bind_def
  by (auto split: prod.splits sum.splits) blast+

lemma keeps_if: "keeps P m \<Longrightarrow> keeps P n \<Longrightarrow> keeps P (if b then m else n)"
  by simp

lemma keeps_urlopen: "keeps P (urlopen u)"
  by (simp add: keeps_def urlopen_def)

lemma keeps_write_member: "keeps P (write_member ar name dir)"
  by (auto simp: keeps_def write_member_def split: option.splits)

lemma keeps_zip_extract: "keeps P (zip_extract b name dir)"
  by (cases b) (simp_all add: zip_extract_def keeps_write_member keeps_raise)

lemma keeps_tar_extract: "keeps P (tar_extract b name dir)"
  by (cases b) (simp_all add: tar_extract_def keeps_write_member keeps_raise)

lemma keeps_ensure_executable: "keeps P (ensure_executable p)"
  unfolding ensure_executable_def
  by (auto simp: keeps_def bind_def chmod_744_def ret_def split: option.splits)

lemma keeps_ensure_state:
  "keeps P (\<lambda>(self, w). ensure_executable (path self w) (self, w))"
  using keeps_ensure_executable [of P]
  unfolding keeps_def by auto

lemma keeps_extract_state:
  "keeps P (\<lambda>(self, w).
     (if c w then zip_extract b (name w) (dir self w)
      else tar_extract b (name w) (dir self w)) (self, w))"
  using keeps_zip_extract [of P b] keeps_tar_extract [of P b]
  unfolding keeps_def by auto

lemma keeps_zip_state:
  "keeps P (\<lambda>(self, w). zip_extract b (name w) (dir self w) (self, w))"
  using keeps_zip_extract [of P b]
  unfolding keeps_def by auto

lemma keeps_fetch_guard:
  "keeps P m \<Longrightarrow>
   keeps P (\<lambda>(self, w). if c self w then (Inr True, self, w) else m (self, w))"
  unfolding keeps_def by auto

lemma keeps_platform_guard:
  "(\<And>plat arch. keeps P (f plat arch)) \<Longrightarrow>
   keeps P (\<lambda>(self, w). case g w of Inl e \<Rightarrow> (Inl e, self, w)
                           | Inr (plat, arch) \<Rightarrow> f plat arch (self, w))"
  unfolding keeps_def by (auto split: sum.splits)

lemma sets_bind_first: "sets P m \<Longrightarrow> (\<And>x. keeps P (f x)) \<Longrightarrow> sets P (bind m f)"
proof -
  assume m: "sets P m" and f: "\<And>x. keeps P (f x)"
  show "sets P (bind m f)"
    unfolding sets_def
  proof (intro allI impI)
    fix self w y self' w'
    assume "bind m f (self, w) = (Inr y, self', w')"
    then obtain x s1 where a: "m (self, w) = (Inr x, s1)" and b: "f x s1 = (Inr y, self', w')"
      by (rule bind_InrE)
    from setsD [OF m a] have "P (fst s1)" .
    with keepsD [OF f b] show "P self'" by simp
  qed
qed

lemma sets_bind_second: "(\<And>x. sets P (f x)) \<Longrightarrow> sets P (bind m f)"
proof -
  assume f: "\<And>x. sets P (f x)"
  show "sets P (bind m f)"
    unfolding sets_def
  proof (intro allI impI)
    fix self w y self' w'
    assume "bind m f (self, w) = (Inr y, self', w')"
    then obtain x s1 where b: "f x s1 = (Inr y, self', w')"
      by (rule bind_InrE)
    from setsD [OF f b] show "P self'" by simp
  qed
qed

lemma sets_platform_guard:
  "(\<And>plat arch. sets P (f plat arch)) \<Longrightarrow>
   sets P (\<lambda>(self, w). case g w of Inl e \<Rightarrow> (Inl e, self, w)
                          | Inr (plat, arch) \<Rightarrow> f plat arch (self, w))"
  unfolding sets_def by (auto split: sum.splits)

lemma ensure_executable_present:
  assumes "isfile w p"
  shows "fst (ensure_executable p (self, w)) = Inr p
       \<and> net_log (snd (snd (ensure_executable p (self, w)))) = net_log w"
  using assms
  by (auto simp: ensure_executable_def isfile_def bind_def chmod_744_def ret_def
      split: option.splits)

subsection \<open>download of the Chrome installer\<close>

lemma keeps_cached_ChromeInstaller_require_version: "keeps (cached_req Q) ChromeInstaller_require_version"
  by (auto simp: keeps_def cached_req_def ChromeInstaller_require_version_def split: option.splits)

lemma keeps_cached_ChromeInstaller_current_version: "keeps (cached_req Q) ChromeInstaller_current_version"
  by (auto simp: keeps_def cached_req_def ChromeInstaller_current_version_def
      split: option.splits sum.splits if_splits)

lemma keeps_cls_ChromeInstaller_require_version: "keeps (\<lambda>self. cls self = c) ChromeInstaller_require_version"
  by (auto simp: keeps_def ChromeInstaller_require_version_def split: option.splits sum.splits if_splits)

lemma keeps_cls_ChromeInstaller_current_version: "keeps (\<lambda>self. cls self = c) ChromeInstaller_current_version"
  by (auto simp: keeps_def ChromeInstaller_current_version_def
      split: option.splits sum.splits if_splits)

lemma keeps_ChromeInstaller_download:
  assumes rq: "keeps P ChromeInstaller_require_version" and cu: "keeps P ChromeInstaller_current_version"
  shows "keeps P ChromeInstaller_need_fetch" and "keeps P ChromeInstaller_fetch" and  "keeps P ChromeInstaller_download"
proof -
  have hrv: "keeps P ChromeInstaller_has_require_version"
    unfolding ChromeInstaller_has_require_version_def
    by (intro keeps_bind rq cu keeps_lift keeps_ret)
  have url: "keeps P ChromeInstaller_get_download_url"
    unfolding ChromeInstaller_get_download_url_def
    by (intro keeps_platform_guard keeps_bind rq keeps_lift keeps_urlopen)
       (auto simp: keeps_lift keeps_raise split: body.splits)
  show nf: "keeps P ChromeInstaller_need_fetch"
    unfolding ChromeInstaller_need_fetch_def
    by (intro keeps_fetch_guard keeps_bind hrv keeps_ret)
  show fe: "keeps P ChromeInstaller_fetch"
    unfolding ChromeInstaller_fetch_def
    by (intro keeps_bind url keeps_urlopen keeps_if keeps_raise keeps_zip_state)
  show "keeps P ChromeInstaller_download"
    unfolding ChromeInstaller_download_def
    by (intro keeps_bind rq keeps_if keeps_raise nf fe keeps_ret keeps_ensure_state)
qed


lemma ChromeInstaller_download_caches:
  assumes "ChromeInstaller_download s0 = (Inr p, s1)"
  shows "cached_req (\<lambda>v. v \<noteq> []) (fst s1)"
proof -
  let ?P = "cached_req (\<lambda>v. v \<noteq> [])"
  let ?rest = "bind ChromeInstaller_need_fetch (\<lambda>fetch.
         bind (if fetch then ChromeInstaller_fetch else ret ()) (\<lambda>_.
         (\<lambda>(self, w). ensure_executable (ChromeInstaller_binary_path self w) (self, w))))"
  note k = keeps_ChromeInstaller_download [of ?P, OF keeps_cached_ChromeInstaller_require_version
      keeps_cached_ChromeInstaller_current_version]
  have rest: "keeps ?P ?rest"
    by (intro keeps_bind keeps_if keeps_ret keeps_ensure_state k(1) k(2))
  from ChromeInstaller_require_version_cases [of s0] assms
  obtain rv where rv: "rv \<noteq> []"
    and step: "ChromeInstaller_require_version s0 = (Inr rv, (fst s0)\<lparr>require_cache := Some rv\<rparr>, snd s0)"
    by (auto simp: ChromeInstaller_download_def bind_def raise_def)
  with assms have run: "?rest ((fst s0)\<lparr>require_cache := Some rv\<rparr>, snd s0) = (Inr p, s1)"
    by (simp add: ChromeInstaller_download_def bind_def)
  have "?P (fst ((fst s0)\<lparr>require_cache := Some rv\<rparr>, snd s0))"
    using rv by (simp add: cached_req_def)
  with rest run show ?thesis by (rule keepsD)
qed

lemma ChromeInstaller_require_version_cached:
  "cached_req Q self \<Longrightarrow>
   \<exists>rv. Q rv \<and> require_cache self = Some rv \<and> ChromeInstaller_require_version (self, w) = (Inr rv, self, w)"
  by (auto simp: cached_req_def ChromeInstaller_require_version_def split: option.splits)

lemma ChromeInstaller_current_version_frame:
  "ChromeInstaller_current_version (self, w) = (r, self', w') \<Longrightarrow> w' = w \<and> cwd self' = cwd self"
  by (auto simp: ChromeInstaller_current_version_def split: option.splits sum.splits if_splits)

lemma ChromeInstaller_has_require_version_frame:
  assumes "cached_req Q self" and "ChromeInstaller_has_require_version (self, w) = (r, self', w')"
  shows "w' = w \<and> cwd self' = cwd self"
proof -
  from ChromeInstaller_require_version_cached [OF assms(1), of w] obtain rv where
    rv: "ChromeInstaller_require_version (self, w) = (Inr rv, self, w)" by blast
  obtain r2 self2 w2 where cv: "ChromeInstaller_current_version (self, w) = (r2, self2, w2)"
    by (metis prod_cases3)
  from ChromeInstaller_current_version_frame [OF cv] have fr: "w2 = w" "cwd self2 = cwd self" by simp_all
  from assms(2) have "self' = self2 \<and> w' = w2"
    by (cases r2)
       (auto simp: ChromeInstaller_has_require_version_def bind_def lift_def ret_def rv cv
          first_item_split_on)
  with fr show ?thesis by simp
qed

lemma ChromeInstaller_binary_path_cwd:
  "cwd self' = cwd self \<Longrightarrow> ChromeInstaller_binary_path self' w = ChromeInstaller_binary_path self w"
  by (simp add: ChromeInstaller_binary_path_def driver_dir_def)

lemma ChromeInstaller_download_again:
  assumes c: "cached_req (\<lambda>v. v \<noteq> []) self"
    and f: "isfile w (ChromeInstaller_binary_path self w)"
    and h: "fst (ChromeInstaller_has_require_version (self, w)) = Inr True"
  shows "fst (ChromeInstaller_download (self, w)) = Inr (ChromeInstaller_binary_path self w)
       \<and> net_log (snd (snd (ChromeInstaller_download (self, w)))) = net_log w"
proof -
  from ChromeInstaller_require_version_cached [OF c, of w] obtain rv where
    rv: "rv \<noteq> []" "ChromeInstaller_require_version (self, w) = (Inr rv, self, w)" by blast
  obtain self' w' where hv: "ChromeInstaller_has_require_version (self, w) = (Inr True, self', w')"
    using h by (cases "ChromeInstaller_has_require_version (self, w)") auto
  from ChromeInstaller_has_require_version_frame [OF c hv] have fr: "w' = w" "cwd self' = cwd self"
    by simp_all
  have bp: "ChromeInstaller_binary_path self' w = ChromeInstaller_binary_path self w"
    using fr(2) by (rule ChromeInstaller_binary_path_cwd)
  have nf: "ChromeInstaller_need_fetch (self, w) = (Inr False, self', w)"
    using f hv fr by (simp add: ChromeInstaller_need_fetch_def bind_def ret_def)
  have dl: "ChromeInstaller_download (self, w) = ensure_executable (ChromeInstaller_binary_path self w) (self', w)"
    using rv nf bp by (simp add: ChromeInstaller_download_def bind_def ret_def)
  show ?thesis
    unfolding dl using ensure_executable_present [OF f, of self'] by simp
qed

subsection \<open>download of the IE installer\<close>

lemma IeInstaller_has_require_version_frame:
  "IeInstaller_has_require_version (self, w) = (r, self', w') \<Longrightarrow> w' = w \<and> self' = self"
  by (auto simp: IeInstaller_has_require_version_def IeInstaller_require_version_def IeInstaller_current_version_def
      bind_def ret_def split: sum.splits)

lemma keeps_IeInstaller_download: "keeps P IeInstaller_download"
proof -
  have rq: "keeps P IeInstaller_require_version"
    by (simp add: IeInstaller_require_version_def keeps_ret)
  have cu: "keeps P IeInstaller_current_version"
    by (auto simp: keeps_def IeInstaller_current_version_def split: sum.splits)
  have hrv: "keeps P IeInstaller_has_require_version"
    unfolding IeInstaller_has_require_version_def by (intro keeps_bind rq cu keeps_ret)
  have url: "keeps P IeInstaller_get_download_url"
    unfolding IeInstaller_get_download_url_def by (intro keeps_bind rq keeps_ret)
  have nf: "keeps P IeInstaller_need_fetch"
    unfolding IeInstaller_need_fetch_def by (intro keeps_fetch_guard keeps_bind hrv keeps_ret)
  have fe: "keeps P IeInstaller_fetch"
    unfolding IeInstaller_fetch_def
    by (intro keeps_bind url keeps_urlopen keeps_if keeps_raise keeps_zip_state)
  show ?thesis
    unfolding IeInstaller_download_def
    by (intro keeps_bind keeps_if nf fe keeps_ret keeps_ensure_state)
qed

lemma IeInstaller_download_again:
  assumes f: "isfile w (IeInstaller_binary_path self w)"
    and h: "fst (IeInstaller_has_require_version (self, w)) = Inr True"
  shows "fst (IeInstaller_download (self, w)) = Inr (IeInstaller_binary_path self w)
       \<and> net_log (snd (snd (IeInstaller_download (self, w)))) = net_log w"
proof -
  obtain self' w' where hv: "IeInstaller_has_require_version (self, w) = (Inr True, self', w')"
    using h by (cases "IeInstaller_has_require_version (self, w)") auto
  from IeInstaller_has_require_version_frame [OF hv] have fr: "w' = w" "self' = self" by simp_all
  have nf: "IeInstaller_need_fetch (self, w) = (Inr False, self, w)"
    using f hv fr by (simp add: IeInstaller_need_fetch_def bind_def ret_def)
  have dl: "IeInstaller_download (self, w) = ensure_executable (IeInstaller_binary_path self w) (self, w)"
    using nf by (simp add: IeInstaller_download_def bind_def ret_def)
  show ?thesis
    unfolding dl using ensure_executable_present [OF f, of self] by simp
qed


subsection \<open>download of the Firefox installer\<close>

lemma keeps_cached_FireFoxInstaller_require_version: "keeps (cached_req Q) FireFoxInstaller_require_version"
  by (auto simp: keeps_def cached_req_def FireFoxInstaller_require_version_def split: option.splits)

lemma keeps_cached_FireFoxInstaller_current_version: "keeps (cached_req Q) FireFoxInstaller_current_version"
  by (auto simp: keeps_def cached_req_def FireFoxInstaller_current_version_def
      split: option.splits sum.splits list.splits if_splits)

lemma keeps_cls_FireFoxInstaller_require_version: "keeps (\<lambda>self. cls self = c) FireFoxInstaller_require_version"
  by (auto simp: keeps_def FireFoxInstaller_require_version_def bind_def urlopen_def raise_def lift_def
      Let_def split: option.splits sum.splits if_splits)

lemma keeps_cls_FireFoxInstaller_current_version: "keeps (\<lambda>self. cls self = c) FireFoxInstaller_current_version"
  by (auto simp: keeps_def FireFoxInstaller_current_version_def
      split: option.splits sum.splits list.splits if_splits)

lemma sets_FireFoxInstaller_require_version: "sets (cached_req (\<lambda>v. True)) FireFoxInstaller_require_version"
  by (auto simp: sets_def cached_req_def FireFoxInstaller_require_version_def bind_def urlopen_def
      raise_def lift_def Let_def split: option.splits sum.splits if_splits)

lemma keeps_FireFoxInstaller_download:
  assumes rq: "keeps P FireFoxInstaller_require_version" and cu: "keeps P FireFoxInstaller_current_version"
  shows "keeps P FireFoxInstaller_has_require_version" and "keeps P FireFoxInstaller_get_download_url"
    and "keeps P FireFoxInstaller_need_fetch" and "keeps P FireFoxInstaller_fetch" and "keeps P FireFoxInstaller_download"
proof -
  show hrv: "keeps P FireFoxInstaller_has_require_version"
    unfolding FireFoxInstaller_has_require_version_def
    by (intro keeps_bind rq cu keeps_ret)
  show url: "keeps P FireFoxInstaller_get_download_url"
    unfolding FireFoxInstaller_get_download_url_def Let_def
    by (intro keeps_platform_guard keeps_bind rq keeps_ret)
  show nf: "keeps P FireFoxInstaller_need_fetch"
    unfolding FireFoxInstaller_need_fetch_def
    by (intro keeps_fetch_guard keeps_bind hrv keeps_ret)
  show fe: "keeps P FireFoxInstaller_fetch"
    unfolding FireFoxInstaller_fetch_def
    by (intro keeps_bind url keeps_urlopen keeps_if keeps_raise keeps_extract_state)
  show "keeps P FireFoxInstaller_download"
    unfolding FireFoxInstaller_download_def
    by (intro keeps_bind keeps_if nf fe keeps_ret keeps_ensure_state)
qed

lemma sets_FireFoxInstaller_has_require_version:
  "sets (cached_req (\<lambda>v. True)) FireFoxInstaller_has_require_version"
  unfolding FireFoxInstaller_has_require_version_def
  by (intro sets_bind_second sets_bind_first sets_FireFoxInstaller_require_version keeps_ret)

lemma sets_FireFoxInstaller_get_download_url:
  "sets (cached_req (\<lambda>v. True)) FireFoxInstaller_get_download_url"
  unfolding FireFoxInstaller_get_download_url_def Let_def
  by (intro sets_platform_guard sets_bind_first sets_FireFoxInstaller_require_version keeps_bind
      keeps_cached_FireFoxInstaller_require_version keeps_ret)

lemma keeps_FireFoxInstaller_fetch_tail:
  "keeps P (bind (urlopen url) (\<lambda>resp.
       if status resp \<noteq> 200 then raise URLError
       else (\<lambda>(self, w).
               (if startswith (platform w) ''win''
                then zip_extract (content resp) (FireFoxInstaller_binary_name w) (driver_dir self w)
                else tar_extract (content resp) (FireFoxInstaller_binary_name w) (driver_dir self w))
                 (self, w))))"
  by (intro keeps_bind keeps_urlopen keeps_if keeps_raise keeps_extract_state)

lemma sets_FireFoxInstaller_fetch: "sets (cached_req (\<lambda>v. True)) FireFoxInstaller_fetch"
  unfolding FireFoxInstaller_fetch_def
  by (intro sets_bind_first sets_FireFoxInstaller_get_download_url keeps_FireFoxInstaller_fetch_tail)

lemma FireFoxInstaller_require_version_cached:
  "cached_req Q self \<Longrightarrow>
   \<exists>rv. require_cache self = Some rv \<and> FireFoxInstaller_require_version (self, w) = (Inr rv, self, w)"
  by (auto simp: cached_req_def FireFoxInstaller_require_version_def split: option.splits)

lemma FireFoxInstaller_current_version_frame:
  "FireFoxInstaller_current_version (self, w) = (r, self', w') \<Longrightarrow>
   w' = w \<and> cwd self' = cwd self \<and> require_cache self' = require_cache self"
  by (auto simp: FireFoxInstaller_current_version_def split: option.splits sum.splits list.splits if_splits)

lemma FireFoxInstaller_has_require_version_frame:
  assumes "cached_req Q self" and "FireFoxInstaller_has_require_version (self, w) = (r, self', w')"
  shows "w' = w \<and> cwd self' = cwd self"
proof -
  obtain r2 self2 w2 where cv: "FireFoxInstaller_current_version (self, w) = (r2, self2, w2)"
    by (metis prod_cases3)
  from FireFoxInstaller_current_version_frame [OF cv]
  have fr: "w2 = w" "cwd self2 = cwd self" "require_cache self2 = require_cache self"
    by simp_all
  from assms(1) fr(3) have "cached_req Q self2" by (simp add: cached_req_def)
  from FireFoxInstaller_require_version_cached [OF this, of w] obtain rv where
    rv: "FireFoxInstaller_require_version (self2, w) = (Inr rv, self2, w)" by blast
  from assms(2) have "self' = self2 \<and> w' = w2"
    by (cases r2) (auto simp: FireFoxInstaller_has_require_version_def bind_def ret_def rv cv fr(1))
  with fr show ?thesis by simp
qed

lemma FireFoxInstaller_binary_path_cwd:
  "cwd self' = cwd self \<Longrightarrow> FireFoxInstaller_binary_path self' w = FireFoxInstaller_binary_path self w"
  by (simp add: FireFoxInstaller_binary_path_def driver_dir_def)

lemma FireFoxInstaller_download_again:
  assumes c: "cached_req Q self"
    and f: "isfile w (FireFoxInstaller_binary_path self w)"
    and h: "fst (FireFoxInstaller_has_require_version (self, w)) = Inr True"
  shows "fst (FireFoxInstaller_download (self, w)) = Inr (FireFoxInstaller_binary_path self w)
       \<and> net_log (snd (snd (FireFoxInstaller_download (self, w)))) = net_log w"
proof -
  obtain self' w' where hv: "FireFoxInstaller_has_require_version (self, w) = (Inr True, self', w')"
    using h by (cases "FireFoxInstaller_has_require_version (self, w)") auto
  from FireFoxInstaller_has_require_version_frame [OF c hv] have fr: "w' = w" "cwd self' = cwd self"
    by simp_all
  have bp: "FireFoxInstaller_binary_path self' w = FireFoxInstaller_binary_path self w"
    using fr(2) by (rule FireFoxInstaller_binary_path_cwd)
  have nf: "FireFoxInstaller_need_fetch (self, w) = (Inr False, self', w)"
    using f hv fr by (simp add: FireFoxInstaller_need_fetch_def bind_def ret_def)
  have dl: "FireFoxInstaller_download (self, w)
              = ensure_executable (FireFoxInstaller_binary_path self w) (self', w)"
    using nf bp by (simp add: FireFoxInstaller_download_def bind_def ret_def)
  show ?thesis
    unfolding dl using ensure_executable_present [OF f, of self'] by simp
qed

subsection \<open>A second download after any first one\<close>

lemma ChromeInstaller_download_again_any:
  assumes f: "isfile w (ChromeInstaller_binary_path self w)"
    and h: "fst (ChromeInstaller_has_require_version (self, w)) = Inr True"
  shows "net_log (snd (snd (ChromeInstaller_download (self, w)))) = net_log w"
proof -
  from ChromeInstaller_require_version_cases [of "(self, w)"]
  consider e where "ChromeInstaller_require_version (self, w) = (Inl e, self, w)"
    | "ChromeInstaller_require_version (self, w) = (Inr [], self, w)"
    | rv where "rv \<noteq> []"
        "ChromeInstaller_require_version (self, w)
           = (Inr rv, self\<lparr>require_cache := Some rv\<rparr>, w)"
    by auto
  then show ?thesis
  proof cases
    case 1
    then show ?thesis by (simp add: ChromeInstaller_download_def bind_def)
  next
    case 2
    then show ?thesis by (simp add: ChromeInstaller_download_def bind_def raise_def)
  next
    case 3
    let ?self = "self\<lparr>require_cache := Some rv\<rparr>"
    have c: "cached_req (\<lambda>v. v \<noteq> []) ?self"
      using 3(1) by (simp add: cached_req_def)
    have again: "ChromeInstaller_require_version (?self, w) = (Inr rv, ?self, w)"
      by (simp add: ChromeInstaller_require_version_def)
    have hh: "ChromeInstaller_has_require_version (?self, w)
                = ChromeInstaller_has_require_version (self, w)"
      by (simp add: ChromeInstaller_has_require_version_def bind_def 3(2) again)
    have dd: "ChromeInstaller_download (?self, w) = ChromeInstaller_download (self, w)"
      by (simp add: ChromeInstaller_download_def bind_def 3(2) again)
    have f': "isfile w (ChromeInstaller_binary_path ?self w)"
      using f by (simp add: ChromeInstaller_binary_path_def driver_dir_def)
    from ChromeInstaller_download_again [OF c f'] h hh dd show ?thesis by simp
  qed
qed

lemma FireFoxInstaller_binary_path_frame:
  "cwd self' = cwd self \<Longrightarrow> platform w' = platform w \<Longrightarrow> cwd_abspath w' = cwd_abspath w \<Longrightarrow>
   module_dir w' = module_dir w \<Longrightarrow>
   FireFoxInstaller_binary_path self' w' = FireFoxInstaller_binary_path self w"
  by (simp add: FireFoxInstaller_binary_path_def FireFoxInstaller_binary_name_def driver_dir_def
      path_join_def is_win_def)

lemma FireFoxInstaller_require_version_same_disk:
  "FireFoxInstaller_require_version s = (r, s') \<Longrightarrow> same_disk s s'"
  by (cases s)
     (auto simp: same_disk_def FireFoxInstaller_require_version_def bind_def urlopen_def
        raise_def lift_def Let_def split: option.splits sum.splits if_splits)

lemma FireFoxInstaller_current_version_same_disk:
  "FireFoxInstaller_current_version s = (r, s') \<Longrightarrow> same_disk s s'"
  by (cases s)
     (auto simp: same_disk_def FireFoxInstaller_current_version_def
        split: option.splits sum.splits list.splits if_splits)

lemma same_disk_trans: "same_disk s s' \<Longrightarrow> same_disk s' s'' \<Longrightarrow> same_disk s s''"
  by (simp add: same_disk_def)

lemma same_disk_refl: "same_disk s s"
  by (simp add: same_disk_def)


lemma bind_cases:
  assumes "bind m f s = (r, s')"
  obtains (fails) e where "m s = (Inl e, s')" "r = Inl e"
    | (goes_on) x s1 where "m s = (Inr x, s1)" "f x s1 = (r, s')"
  using assms unfolding bind_def
  by (cases "m s") (auto split: sum.splits)

lemma same_disk_bind:
  assumes m: "\<And>s r s'. m s = (r, s') \<Longrightarrow> same_disk s s'"
    and f: "\<And>x s r s'. f x s = (r, s') \<Longrightarrow> same_disk s s'"
    and run: "bind m f s = (r, s')"
  shows "same_disk s s'"
  using run
proof (cases rule: bind_cases)
  case (fails e)
  then show ?thesis using m by blast
next
  case (goes_on x s1)
  from m [OF goes_on(1)] f [OF goes_on(2)] show ?thesis by (rule same_disk_trans)
qed

lemma FireFoxInstaller_get_download_url_same_disk:
  assumes "FireFoxInstaller_get_download_url s = (r, s')"
  shows "same_disk s s'"
proof -
  obtain self w where s: "s = (self, w)" by (cases s)
  show ?thesis
  proof (cases "FireFoxInstaller_get_platform_architecture w")
    case (Inl e)
    with assms show ?thesis
      by (auto simp: FireFoxInstaller_get_download_url_def s same_disk_def)
  next
    case (Inr pa)
    obtain plat arch where pa: "pa = (plat, arch)" by (cases pa)
    from assms Inr pa obtain g :: "string \<Rightarrow> string \<Rightarrow> string" where
      run: "bind FireFoxInstaller_require_version (\<lambda>rv1.
            bind FireFoxInstaller_require_version (\<lambda>rv2. ret (g rv1 rv2))) s = (r, s')"
      by (auto simp: FireFoxInstaller_get_download_url_def s Let_def)
    have inner: "same_disk t t'"
      if "bind FireFoxInstaller_require_version (\<lambda>rv2. ret (g x rv2)) t = (q, t')"
      for x t q t'
      using that
    proof (rule same_disk_bind [rotated 2])
      show "\<And>s r s'. FireFoxInstaller_require_version s = (r, s') \<Longrightarrow> same_disk s s'"
        by (rule FireFoxInstaller_require_version_same_disk)
      show "\<And>x' s r s'. ret (g x x') s = (r, s') \<Longrightarrow> same_disk s s'"
        by (auto simp: ret_def same_disk_def)
    qed
    from run show ?thesis
    proof (rule same_disk_bind [rotated 2])
      show "\<And>s r s'. FireFoxInstaller_require_version s = (r, s') \<Longrightarrow> same_disk s s'"
        by (rule FireFoxInstaller_require_version_same_disk)
      show "\<And>x s r s'. bind FireFoxInstaller_require_version (\<lambda>rv2. ret (g x rv2)) s = (r, s')
              \<Longrightarrow> same_disk s s'"
        by (rule inner)
    qed
  qed
qed

lemma FireFoxInstaller_current_version_fails:
  "FireFoxInstaller_current_version s = (Inl e, s') \<Longrightarrow> s' = s"
  by (cases s)
     (auto simp: FireFoxInstaller_current_version_def
        split: option.splits sum.splits list.splits if_splits)

lemma FireFoxInstaller_current_version_world:
  "FireFoxInstaller_current_version (self, w) = (r, self', w') \<Longrightarrow>
   w' = w \<and> require_cache self' = require_cache self"
  by (auto simp: FireFoxInstaller_current_version_def
      split: option.splits sum.splits list.splits if_splits)

lemma FireFoxInstaller_require_version_fails:
  "FireFoxInstaller_require_version (self, w) = (Inl e, self', w') \<Longrightarrow>
   require_cache self = None \<and> self' = self \<and> net w' = net w"
  by (auto simp: FireFoxInstaller_require_version_def bind_def urlopen_def raise_def lift_def
      Let_def split: option.splits sum.splits if_splits)

lemma FireFoxInstaller_require_version_fails_again:
  "fst (FireFoxInstaller_require_version (a, w)) = Inl e \<Longrightarrow> require_cache b = None \<Longrightarrow>
   net w' = net w \<Longrightarrow> fst (FireFoxInstaller_require_version (b, w')) = Inl e"
  by (auto simp: FireFoxInstaller_require_version_def bind_def urlopen_def raise_def lift_def
      Let_def split: option.splits sum.splits if_splits)

lemma FireFoxInstaller_has_require_version_fails_again:
  assumes "FireFoxInstaller_has_require_version s0 = (Inl e, s1)"
  shows "\<exists>e'. fst (FireFoxInstaller_has_require_version s1) = Inl e'"
proof -
  from assms have run:
    "bind FireFoxInstaller_current_version (\<lambda>cv.
     bind FireFoxInstaller_require_version (\<lambda>rv. ret (cv = rv))) s0 = (Inl e, s1)"
    by (simp add: FireFoxInstaller_has_require_version_def)
  from run show ?thesis
  proof (cases rule: bind_cases)
  case (fails e0)
  from fails(1) have "s1 = s0" by (rule FireFoxInstaller_current_version_fails)
  with fails show ?thesis by (simp add: FireFoxInstaller_has_require_version_def bind_def)
next
  case (goes_on cv sa)
  obtain self0 w0 where s0: "s0 = (self0, w0)" by (cases s0)
  obtain selfa wa where sa: "sa = (selfa, wa)" by (cases sa)
  from goes_on(2) obtain e1 where rv: "FireFoxInstaller_require_version sa = (Inl e1, s1)"
    by (cases rule: bind_cases) (auto simp: ret_def split: prod.splits)
  obtain self1 w1 where s1: "s1 = (self1, w1)" by (cases s1)
  from FireFoxInstaller_require_version_fails [OF rv [unfolded sa s1]]
  have none: "require_cache selfa = None" and same: "self1 = selfa" and net: "net w1 = net wa"
    by simp_all
  have first: "fst (FireFoxInstaller_require_version (selfa, wa)) = Inl e1"
    using rv by (simp add: sa)
  obtain r2 self2 w2 where cv2: "FireFoxInstaller_current_version (self1, w1) = (r2, self2, w2)"
    by (metis prod_cases3)
  from FireFoxInstaller_current_version_world [OF cv2]
  have w2: "w2 = w1" and none2: "require_cache self2 = None"
    using none same by simp_all
  from FireFoxInstaller_require_version_fails_again [OF first none2, of w2] net w2
  have again: "fst (FireFoxInstaller_require_version (self2, w2)) = Inl e1" by simp
  show ?thesis
  proof (cases r2)
    case (Inl e2)
    with cv2 show ?thesis by (simp add: FireFoxInstaller_has_require_version_def s1 bind_def)
  next
    case (Inr v2)
    with cv2 again show ?thesis
      by (cases "FireFoxInstaller_require_version (self2, w2)")
         (simp add: FireFoxInstaller_has_require_version_def s1 bind_def)
  qed
qed
qed


lemma isfile_same_disk:
  assumes "same_disk s s'"
  shows "isfile (snd s') (FireFoxInstaller_binary_path (fst s') (snd s'))
           = isfile (snd s) (FireFoxInstaller_binary_path (fst s) (snd s))"
proof -
  from assms have "FireFoxInstaller_binary_path (fst s') (snd s')
                     = FireFoxInstaller_binary_path (fst s) (snd s)"
    by (intro FireFoxInstaller_binary_path_frame) (simp_all add: same_disk_def)
  with assms show ?thesis by (simp add: isfile_def same_disk_def)
qed

lemma FireFoxInstaller_download_then_cached:
  assumes first: "FireFoxInstaller_download s0 = (r1, s1)"
    and present: "isfile (snd s1) (FireFoxInstaller_binary_path (fst s1) (snd s1))"
    and matched: "fst (FireFoxInstaller_has_require_version s1) = Inr True"
  shows "cached_req (\<lambda>v. True) (fst s1)"
proof -
  let ?P = "cached_req (\<lambda>v. True)"
  let ?tail = "\<lambda>(self, w). ensure_executable (FireFoxInstaller_binary_path self w) (self, w)"
  note k = keeps_FireFoxInstaller_download [of ?P,
      OF keeps_cached_FireFoxInstaller_require_version
         keeps_cached_FireFoxInstaller_current_version]
  have tail: "keeps ?P ?tail" by (rule keeps_ensure_state)
  have rest: "keeps ?P (bind (if b then FireFoxInstaller_fetch else ret ()) (\<lambda>_. ?tail))" for b
    by (intro keeps_bind keeps_if k(4) keeps_ret tail)
  obtain self0 w0 where s0: "s0 = (self0, w0)" by (cases s0)
  from first have run: "bind FireFoxInstaller_need_fetch
      (\<lambda>fetch. bind (if fetch then FireFoxInstaller_fetch else ret ()) (\<lambda>_. ?tail)) s0 = (r1, s1)"
    by (simp add: FireFoxInstaller_download_def)
  show ?thesis
  proof (cases "isfile w0 (FireFoxInstaller_binary_path self0 w0)")
    case False
    then have nf: "FireFoxInstaller_need_fetch s0 = (Inr True, s0)"
      by (simp add: FireFoxInstaller_need_fetch_def s0)
    with run have "bind FireFoxInstaller_fetch (\<lambda>_. ?tail) s0 = (r1, s1)"
      by (simp add: bind_def)
    then show ?thesis
    proof (cases rule: bind_cases)
      case (fails e)
      from fails(1) have "bind FireFoxInstaller_get_download_url (\<lambda>url.
          bind (urlopen url) (\<lambda>resp.
            if status resp \<noteq> 200 then raise URLError
            else (\<lambda>(self, w).
               (if startswith (platform w) ''win''
                then zip_extract (content resp) (FireFoxInstaller_binary_name w) (driver_dir self w)
                else tar_extract (content resp) (FireFoxInstaller_binary_name w) (driver_dir self w))
                 (self, w)))) s0 = (Inl e, s1)"
        by (simp add: FireFoxInstaller_fetch_def)
      then show ?thesis
      proof (cases rule: bind_cases)
        case (fails e')
        from FireFoxInstaller_get_download_url_same_disk [OF fails(1)]
        have "same_disk s0 s1" .
        from isfile_same_disk [OF this] present False show ?thesis by (simp add: s0)
      next
        case (goes_on url su)
        from setsD [OF sets_FireFoxInstaller_get_download_url goes_on(1)] have "?P (fst su)" .
        with keeps_FireFoxInstaller_fetch_tail goes_on(2) show ?thesis by (rule keepsD)
      qed
    next
      case (goes_on u sb)
      from setsD [OF sets_FireFoxInstaller_fetch goes_on(1)] have "?P (fst sb)" .
      with tail goes_on(2) show ?thesis by (rule keepsD)
    qed
  next
    case True
    then have nf: "FireFoxInstaller_need_fetch s0
        = bind FireFoxInstaller_has_require_version (\<lambda>ok. ret (\<not> ok)) s0"
      by (simp add: FireFoxInstaller_need_fetch_def s0)
    from run show ?thesis
    proof (cases rule: bind_cases)
      case (fails e)
      from fails(1) have "bind FireFoxInstaller_has_require_version (\<lambda>ok. ret (\<not> ok)) s0
          = (Inl e, s1)" by (simp add: nf)
      then have "FireFoxInstaller_has_require_version s0 = (Inl e, s1)"
        by (cases rule: bind_cases) (auto simp: ret_def split: prod.splits)
      from FireFoxInstaller_has_require_version_fails_again [OF this] matched
      show ?thesis by auto
    next
      case (goes_on fetch sa)
      from goes_on(1) have "bind FireFoxInstaller_has_require_version (\<lambda>ok. ret (\<not> ok)) s0
          = (Inr fetch, sa)" by (simp add: nf)
      moreover have "sets ?P (bind FireFoxInstaller_has_require_version (\<lambda>ok. ret (\<not> ok)))"
        by (intro sets_bind_first sets_FireFoxInstaller_has_require_version keeps_ret)
      ultimately have "?P (fst sa)" by (rule setsD [rotated])
      with rest goes_on(2) show ?thesis by (rule keepsD)
    qed
  qed
qed

subsection \<open>download of any installer\<close>

lemma download_keeps_cls:
  assumes "download s0 = (r, s1)"
  shows "cls (fst s1) = cls (fst s0)"
proof -
  obtain self0 w0 where s0: "s0 = (self0, w0)" by (cases s0)
  let ?P = "\<lambda>self. cls self = cls self0"
  have "keeps ?P ChromeInstaller_download"
    by (rule keeps_ChromeInstaller_download(3) [OF keeps_cls_ChromeInstaller_require_version
          keeps_cls_ChromeInstaller_current_version])
  moreover have "keeps ?P IeInstaller_download" by (rule keeps_IeInstaller_download)
  moreover have "keeps ?P FireFoxInstaller_download"
    by (rule keeps_FireFoxInstaller_download(5) [OF keeps_cls_FireFoxInstaller_require_version
          keeps_cls_FireFoxInstaller_current_version])
  ultimately have "keeps ?P download"
    unfolding keeps_def download_def by (auto split: family.splits)
  from keepsD [OF this assms] show ?thesis by (simp add: s0)
qed

subsection \<open>The Firefox installer on the Windows machine\<close>

lemma gecko_release_tag:
  "str_in ''/tag/'' (final_url gecko_release)"
  "last_item (split_on (CHR ''/'') (final_url gecko_release)) = Inr ''v0.33.0''"
  by (simp_all add: gecko_release_def str_in_def sublist_Cons_right last_item_def)

lemma FireFoxInstaller_require_version_win:
  "require_cache self = None \<Longrightarrow>
   FireFoxInstaller_require_version (self, win_world)
     = (Inr ''v0.33.0'', self\<lparr>require_cache := Some ''v0.33.0''\<rparr>, win_world_fetched)"
  by (simp add: FireFoxInstaller_require_version_def bind_def urlopen_def win_world_sel lift_def
      gecko_release_tag win_world_fetched_def)

lemma FireFoxInstaller_has_require_version_win:
  "FireFoxInstaller_has_require_version (new_installer FireFox True, win_world)
     = (Inr True, ff_cached, win_world_fetched)"
proof -
  have "FireFoxInstaller_require_version
          ((new_installer FireFox True)\<lparr>current_cache := Some ''v0.33.0''\<rparr>, win_world)
     = (Inr ''v0.33.0'',
        (new_installer FireFox True)\<lparr>current_cache := Some ''v0.33.0'',
                                       require_cache := Some ''v0.33.0''\<rparr>,
        win_world_fetched)"
    by (rule FireFoxInstaller_require_version_win) (simp add: new_installer_sel)
  moreover have "(new_installer FireFox True)\<lparr>current_cache := Some ''v0.33.0'',
                                       require_cache := Some ''v0.33.0''\<rparr> = ff_cached"
    by (simp add: ff_cached_def new_installer_def)
  ultimately show ?thesis
    by (simp add: FireFoxInstaller_has_require_version_def bind_def ret_def FireFoxInstaller_current_version_win)
qed

lemma win_world_fetched_files:
  "files win_world_fetched win_gecko_path = Some gecko_driver"
  "net_log win_world_fetched = [gecko_latest_url]"
  by (simp_all add: win_world_fetched_def win_world_files)

lemma FireFoxInstaller_binary_path_fetched:
  "FireFoxInstaller_binary_path ff_cached win_world_fetched = win_gecko_path"
  "FireFoxInstaller_binary_path (new_installer FireFox True) win_world = win_gecko_path"
  by (simp_all add: FireFoxInstaller_binary_path_def FireFoxInstaller_binary_name_def driver_dir_def ff_cached_def
      new_installer_def win_world_fetched_def win_world_sel path_join_def is_win_def
      startswith_def win_gecko_path_def win_dir_def backslash_def)

lemma FireFoxInstaller_download_win:
  "download (new_installer FireFox True, win_world)
     = (Inr win_gecko_path, ff_cached, win_world_fetched)"
proof -
  have present: "isfile win_world win_gecko_path"
    by (simp add: isfile_def win_world_files)
  have nf: "FireFoxInstaller_need_fetch (new_installer FireFox True, win_world)
              = (Inr False, ff_cached, win_world_fetched)"
    using present
    by (simp add: FireFoxInstaller_need_fetch_def FireFoxInstaller_binary_path_fetched bind_def ret_def
        FireFoxInstaller_has_require_version_win)
  have exec: "access_x_ok win_world_fetched win_gecko_path"
    by (simp add: access_x_ok_def win_world_fetched_files gecko_driver_def)
  have "FireFoxInstaller_download (new_installer FireFox True, win_world)
     = (Inr win_gecko_path, ff_cached, win_world_fetched)"
    using exec
    by (simp add: FireFoxInstaller_download_def bind_def ret_def nf ensure_executable_def
        FireFoxInstaller_binary_path_fetched)
  then show ?thesis
    by (simp add: download_def new_installer_sel)
qed

lemma FireFoxInstaller_has_require_version_fetched:
  "has_require_version (ff_cached, win_world_fetched) = (Inr True, ff_cached, win_world_fetched)"
  by (simp add: has_require_version_def FireFoxInstaller_has_require_version_def bind_def ret_def
      FireFoxInstaller_current_version_def FireFoxInstaller_require_version_def ff_cached_def)

section \<open>has_require_version\<close>

text \<open>
  Claim C1. With the two version attributes cached as \<open>req\<close> and \<open>cur\<close>,
  \<open>ChromeInstaller.has_require_version()\<close> returns whether the leading segments (before
  the first dot) of the two are equal, and \<open>FireFoxInstaller.has_require_version()\<close>
  returns whether the two strings are equal; neither changes the object or the machine.
  \<open>IeInstaller\<close> caches nothing: whenever its \<open>current_version\<close> yields \<open>cur\<close>,
  \<open>has_require_version()\<close> returns whether its required version, the constant 3.150.1,
  equals \<open>cur\<close> with its last two characters removed.
\<close>

theorem has_require_version_rule:
  "ChromeInstaller_has_require_version (self\<lparr>require_cache := Some req, current_cache := Some cur\<rparr>, w)
     = (Inr (leading_segment req = leading_segment cur),
        self\<lparr>require_cache := Some req, current_cache := Some cur\<rparr>, w)
   \<and> FireFoxInstaller_has_require_version (self\<lparr>require_cache := Some req, current_cache := Some cur\<rparr>, w)
     = (Inr (req = cur), self\<lparr>require_cache := Some req, current_cache := Some cur\<rparr>, w)
   \<and> (IeInstaller_current_version (self, w) = (Inr cur, s') \<longrightarrow>
        IeInstaller_has_require_version (self, w) = (Inr (''3.150.1'' = drop_last_two cur), s'))"
  by (auto simp: ChromeInstaller_has_require_version_def FireFoxInstaller_has_require_version_def
      IeInstaller_has_require_version_def ChromeInstaller_require_version_def ChromeInstaller_current_version_def
      FireFoxInstaller_require_version_def FireFoxInstaller_current_version_def IeInstaller_require_version_def
      bind_def lift_def ret_def first_item_split_on leading_segment_def drop_last_two_def
      slice_to_minus2_butlast)

theorem has_require_version_rule_witness:
  "IeInstaller_current_version (new_installer Ie True, win_world)
     = (Inr ''3.150.1.0'', new_installer Ie True, win_world)
   \<and> IeInstaller_has_require_version (new_installer Ie True, win_world)
     = (Inr True, new_installer Ie True, win_world)"
  using has_require_version_rule [where self = "new_installer Ie True" and w = win_world
      and cur = "''3.150.1.0''" and s' = "(new_installer Ie True, win_world)"]
  by (simp add: ie_current_version_win drop_last_two_def)

section \<open>InstallInterface.install and the search path\<close>

text \<open>
  Claim C2, evaluated on the Windows machine with the IE installer, whose driver is
  present and matches: \<open>install()\<close> returns the driver's path, and the search
  path, which held the one entry \<open>win_path_var\<close> (the Windows directory), is
  afterwards the driver directory followed by a semicolon. The entry that was there
  before the call is gone.
\<close>

theorem install_drops_path_entries:
  "fst (install (new_installer Ie True, win_world)) = Inr win_ie_path
   \<and> environ_PATH win_world = Some win_path_var
   \<and> environ_PATH (snd (snd (install (new_installer Ie True, win_world))))
     = Some (win_dir @ '';'')
   \<and> win_path_var \<in> set (path_entries win_world)
   \<and> win_path_var \<notin> set (path_entries (snd (snd (install (new_installer Ie True, win_world)))))"
  by (simp add: ie_install_win path_entries_def is_win_def startswith_def win_world_sel
      win_dir_def win_path_var_def backslash_def)

section \<open>FirefoxOptions.set_start_url\<close>

text \<open>
  Claim C3, evaluated on the Firefox builder with the URL https://example.com: the call
  sets the blank-window preference to false and the startup-mode preference to 1, and
  sets the homepage preference to the literal https://google.com of the source, not to
  the URL it was given.
\<close>

theorem FirefoxOptions_set_start_url_ignores_url:
  "profile_pref (snd (set_start_url 2 ''https://example.com'' builders)) 2
     ''browser.startup.homepage'' = Some (PStr ''https://google.com'')
   \<and> profile_pref (snd (set_start_url 2 ''https://example.com'' builders)) 2
     ''browser.startup.blankWindow'' = Some (PBool False)
   \<and> profile_pref (snd (set_start_url 2 ''https://example.com'' builders)) 2
     ''browser.startup.page'' = Some (PInt 1)"
  by (simp add: profile_pref_def set_start_url_def FirefoxOptions_set_start_url_def
      builders_def set_preference_def FirefoxOptions_init_options_def)

section \<open>get_platform_architecture\<close>

text \<open>
  Claim C4 as stated fails for the IE installer: on a platform that is not supported it
  returns None and raises nothing, and on Windows it returns None, not a pair.
\<close>

theorem IeInstaller_get_platform_architecture_never_raises:
  "\<not> supported_platform sunos_world
   \<and> IeInstaller_get_platform_architecture sunos_world = Inr None
   \<and> IeInstaller_get_platform_architecture sunos_world \<noteq> Inl PlatformUnsupported
   \<and> IeInstaller_get_platform_architecture win_world = Inr None"
  by (simp add: IeInstaller_get_platform_architecture_def supported_platform_def sunos_world_def
      linux_world_def startswith_def)

text \<open>
  Claim C4, amended. For the Chrome and Firefox installers the result depends only on
  \<open>sys.platform\<close>, \<open>sys.maxsize\<close> and \<open>platform.machine()\<close>: 64-bit Linux gives
  (linux, 64); darwin gives (mac, 64) for Chrome and (mac, os) for Firefox; Windows gives
  (win, 32) for Chrome and, for Firefox, (win, 64) when the machine type ends in 64 and
  (win, 32) otherwise; every other platform raises the platform error. The IE
  installer's method returns None on every platform.
\<close>

theorem get_platform_architecture_cases:
  "(startswith (platform w) ''linux'' \<and> 2 ^ 32 < maxsize w \<longrightarrow>
      ChromeInstaller_get_platform_architecture w = Inr (''linux'', ''64'')
      \<and> FireFoxInstaller_get_platform_architecture w = Inr (''linux'', ''64''))
   \<and> (platform w = ''darwin'' \<longrightarrow>
      ChromeInstaller_get_platform_architecture w = Inr (''mac'', ''64'')
      \<and> FireFoxInstaller_get_platform_architecture w = Inr (''mac'', ''os''))
   \<and> (startswith (platform w) ''win'' \<longrightarrow>
      ChromeInstaller_get_platform_architecture w = Inr (''win'', ''32'')
      \<and> FireFoxInstaller_get_platform_architecture w
          = Inr (''win'', if endswith (machine w) ''64'' then ''64'' else ''32''))
   \<and> (\<not> supported_platform w \<longrightarrow>
      ChromeInstaller_get_platform_architecture w = Inl PlatformUnsupported
      \<and> FireFoxInstaller_get_platform_architecture w = Inl PlatformUnsupported)
   \<and> IeInstaller_get_platform_architecture w = Inr None
   \<and> (platform w = platform w' \<and> maxsize w = maxsize w' \<and> machine w = machine w' \<longrightarrow>
      ChromeInstaller_get_platform_architecture w = ChromeInstaller_get_platform_architecture w'
      \<and> FireFoxInstaller_get_platform_architecture w = FireFoxInstaller_get_platform_architecture w')"
proof -
  have linux: "startswith (platform w) ''linux'' \<and> 2 ^ 32 < maxsize w \<longrightarrow>
      ChromeInstaller_get_platform_architecture w = Inr (''linux'', ''64'')
      \<and> FireFoxInstaller_get_platform_architecture w = Inr (''linux'', ''64'')"
    by (simp add: ChromeInstaller_get_platform_architecture_def FireFoxInstaller_get_platform_architecture_def)
  have darwin: "platform w = ''darwin'' \<longrightarrow>
      ChromeInstaller_get_platform_architecture w = Inr (''mac'', ''64'')
      \<and> FireFoxInstaller_get_platform_architecture w = Inr (''mac'', ''os'')"
    by (simp add: ChromeInstaller_get_platform_architecture_def FireFoxInstaller_get_platform_architecture_def
        startswith_def)
  have win: "startswith (platform w) ''win'' \<longrightarrow>
      ChromeInstaller_get_platform_architecture w = Inr (''win'', ''32'')
      \<and> FireFoxInstaller_get_platform_architecture w
          = Inr (''win'', if endswith (machine w) ''64'' then ''64'' else ''32'')"
    using win_not_linux [of "platform w"]
    by (simp add: ChromeInstaller_get_platform_architecture_def FireFoxInstaller_get_platform_architecture_def)
  have other: "\<not> supported_platform w \<longrightarrow>
      ChromeInstaller_get_platform_architecture w = Inl PlatformUnsupported
      \<and> FireFoxInstaller_get_platform_architecture w = Inl PlatformUnsupported"
    by (simp add: ChromeInstaller_get_platform_architecture_def FireFoxInstaller_get_platform_architecture_def
        supported_platform_def)
  have ie: "IeInstaller_get_platform_architecture w = Inr None"
    by (simp add: IeInstaller_get_platform_architecture_def)
  have pure: "platform w = platform w' \<and> maxsize w = maxsize w' \<and> machine w = machine w' \<longrightarrow>
      ChromeInstaller_get_platform_architecture w = ChromeInstaller_get_platform_architecture w'
      \<and> FireFoxInstaller_get_platform_architecture w = FireFoxInstaller_get_platform_architecture w'"
  proof (intro impI)
    assume "platform w = platform w' \<and> maxsize w = maxsize w' \<and> machine w = machine w'"
    then have same: "platform w = platform w'" "maxsize w = maxsize w'" "machine w = machine w'"
      by simp_all
    show "ChromeInstaller_get_platform_architecture w = ChromeInstaller_get_platform_architecture w'
      \<and> FireFoxInstaller_get_platform_architecture w = FireFoxInstaller_get_platform_architecture w'"
      unfolding ChromeInstaller_get_platform_architecture_def FireFoxInstaller_get_platform_architecture_def same
      by simp
  qed
  from linux darwin win other ie pure show ?thesis by blast
qed

theorem get_platform_architecture_cases_witness:
  "startswith (platform win_world) ''win''
   \<and> ChromeInstaller_get_platform_architecture win_world = Inr (''win'', ''32'')
   \<and> FireFoxInstaller_get_platform_architecture win_world = Inr (''win'', ''64'')
   \<and> \<not> supported_platform sunos_world
   \<and> FireFoxInstaller_get_platform_architecture sunos_world = Inl PlatformUnsupported
   \<and> startswith (platform linux_world) ''linux'' \<and> 2 ^ 32 < maxsize linux_world
   \<and> ChromeInstaller_get_platform_architecture linux_world = Inr (''linux'', ''64'')"
  using get_platform_architecture_cases [of win_world win_world]
    get_platform_architecture_cases [of sunos_world sunos_world]
    get_platform_architecture_cases [of linux_world linux_world]
  by (simp add: startswith_def endswith_def suffix_to_prefix supported_platform_def
      win_world_def sunos_world_def linux_world_def)

section \<open>download twice\<close>

text \<open>
  Claim C5. Let a first \<open>download()\<close> on an installer of any of the three classes
  have ended, with a result or with an exception. If the binary file is then present and
  \<open>has_require_version()\<close> holds, a second \<open>download()\<close> on the same object
  opens no URL: the log of network requests is as the first call left it. When the first
  call returned, the second one returns the binary path.
\<close>

theorem download_twice_no_fetch:
  assumes first: "download s0 = (r1, self, w)"
    and present: "isfile w (binary_path self w)"
    and matched: "fst (has_require_version (self, w)) = Inr True"
  shows "net_log (snd (snd (download (self, w)))) = net_log w
       \<and> ((\<exists>p. r1 = Inr p) \<longrightarrow> fst (download (self, w)) = Inr (binary_path self w))"
proof -
  obtain self0 w0 where s0: "s0 = (self0, w0)" by (cases s0)
  from download_keeps_cls [OF first] have same: "cls self0 = cls self" by (simp add: s0)
  show ?thesis
  proof (cases "cls self")
    case Chrome
    from present Chrome have f: "isfile w (ChromeInstaller_binary_path self w)"
      by (simp add: binary_path_def binary_name_def ChromeInstaller_binary_path_def)
    from matched Chrome have h: "fst (ChromeInstaller_has_require_version (self, w)) = Inr True"
      by (simp add: has_require_version_def)
    have quiet: "net_log (snd (snd (download (self, w)))) = net_log w"
      using ChromeInstaller_download_again_any [OF f h] Chrome by (simp add: download_def)
    have "fst (download (self, w)) = Inr (binary_path self w)" if "r1 = Inr p" for p
    proof -
      from that first same Chrome have "ChromeInstaller_download s0 = (Inr p, self, w)"
        by (simp add: download_def s0)
      then have c: "cached_req (\<lambda>v. v \<noteq> []) self"
        using ChromeInstaller_download_caches by fastforce
      from ChromeInstaller_download_again [OF c f h] Chrome show ?thesis
        by (simp add: download_def binary_path_def binary_name_def
            ChromeInstaller_binary_path_def)
    qed
    with quiet show ?thesis by blast
  next
    case Ie
    from present Ie have f: "isfile w (IeInstaller_binary_path self w)"
      by (simp add: binary_path_def binary_name_def IeInstaller_binary_path_def)
    from matched Ie have h: "fst (IeInstaller_has_require_version (self, w)) = Inr True"
      by (simp add: has_require_version_def)
    from IeInstaller_download_again [OF f h] Ie show ?thesis
      by (simp add: download_def binary_path_def binary_name_def IeInstaller_binary_path_def)
  next
    case FireFox
    with first same have d: "FireFoxInstaller_download s0 = (r1, self, w)"
      by (simp add: download_def s0)
    from present FireFox have f: "isfile w (FireFoxInstaller_binary_path self w)"
      by (simp add: binary_path_def binary_name_def FireFoxInstaller_binary_path_def)
    from matched FireFox have h: "fst (FireFoxInstaller_has_require_version (self, w)) = Inr True"
      by (simp add: has_require_version_def)
    from FireFoxInstaller_download_then_cached [OF d] f h
    have c: "cached_req (\<lambda>v. True) self" by simp
    from FireFoxInstaller_download_again [OF c f h] FireFox show ?thesis
      by (simp add: download_def binary_path_def binary_name_def
          FireFoxInstaller_binary_path_def)
  qed
qed

theorem download_twice_no_fetch_witness:
  "download (new_installer FireFox True, win_world)
     = (Inr win_gecko_path, ff_cached, win_world_fetched)
   \<and> isfile win_world_fetched (binary_path ff_cached win_world_fetched)
   \<and> fst (has_require_version (ff_cached, win_world_fetched)) = Inr True
   \<and> fst (download (ff_cached, win_world_fetched)) = Inr win_gecko_path
   \<and> net_log (snd (snd (download (ff_cached, win_world_fetched)))) = [gecko_latest_url]"
proof -
  have bp: "binary_path ff_cached win_world_fetched = win_gecko_path"
    using FireFoxInstaller_binary_path_fetched(1)
    by (simp add: binary_path_def binary_name_def FireFoxInstaller_binary_path_def ff_cached_def)
  have present: "isfile win_world_fetched (binary_path ff_cached win_world_fetched)"
    by (simp add: bp isfile_def win_world_fetched_files)
  have matched: "fst (has_require_version (ff_cached, win_world_fetched)) = Inr True"
    by (simp add: FireFoxInstaller_has_require_version_fetched)
  from download_twice_no_fetch [OF FireFoxInstaller_download_win present matched]
  have "fst (download (ff_cached, win_world_fetched)) = Inr win_gecko_path
       \<and> net_log (snd (snd (download (ff_cached, win_world_fetched)))) = [gecko_latest_url]"
    by (simp add: bp win_world_fetched_files)
  with FireFoxInstaller_download_win present matched show ?thesis by simp
qed

section \<open>ChromeInstaller.get_download_url\<close>

text \<open>
  Claim C6 as stated fails on the Linux machine: the required version is 114.0.5735.90
  and the listing holds 114.0.5735.90/chromedriver_linux64.zip, but the entry of release
  114.0.5735.16 comes first, and the resolved URL names that release.
\<close>

theorem ChromeInstaller_get_download_url_not_exact:
  "fst (ChromeInstaller_require_version (new_installer Chrome True, linux_world)) = Inr ''114.0.5735.90''
   \<and> content chrome_listing
       = XmlKeys [Some ''113.0.5672.63/chromedriver_linux64.zip'',
                  Some ''114.0.5735.16/chromedriver_linux64.zip'',
                  Some ''114.0.5735.90/chromedriver_linux64.zip'']
   \<and> fst (ChromeInstaller_get_download_url (new_installer Chrome True, linux_world))
       = Inr (chrome_base_url @ ''114.0.5735.16/chromedriver_linux64.zip'')
   \<and> fst (ChromeInstaller_get_download_url (new_installer Chrome True, linux_world))
       \<noteq> Inr (chrome_base_url @ ''114.0.5735.90/chromedriver_linux64.zip'')"
  by (simp add: ChromeInstaller_get_download_url_def ChromeInstaller_gpa_linux bind_def lift_def urlopen_def
      ChromeInstaller_require_version_linux linux_world_sel chrome_listing_def first_item_def
      str_find_def)

text \<open>
  Claim C6, amended. When platform detection gives \<open>(plat, arch)\<close>, the required
  version is \<open>rv\<close> and the listing's Key elements have the texts \<open>ks\<close>, the
  result is decided by the first text that starts with the leading segment of \<open>rv\<close>
  followed by a dot: the URL is the base URL, that text up to its first slash, and
  /chromedriver_ plat arch .zip. With no such text the call fails.
\<close>

theorem ChromeInstaller_get_download_url_first_match:
  assumes "ChromeInstaller_get_platform_architecture w = Inr (plat, arch)"
    and "fst (ChromeInstaller_require_version (self, w)) = Inr rv"
    and "net w chrome_listing_url = Some resp"
    and "content resp = XmlKeys (map Some ks)"
  shows "fst (ChromeInstaller_get_download_url (self, w)) =
     (case find (\<lambda>t. prefix (leading_segment rv @ ''.'') t) ks of
        None \<Rightarrow> Inl NoMatchingDriver
      | Some t \<Rightarrow>
          Inr (chrome_base_url @ takeWhile (\<lambda>c. c \<noteq> CHR ''/'') t
               @ ''/chromedriver_'' @ plat @ arch @ ''.zip''))"
proof -
  obtain self' w' where rv: "ChromeInstaller_require_version (self, w) = (Inr rv, self', w')"
    using assms(2) by (cases "ChromeInstaller_require_version (self, w)") auto
  then have w': "w' = w" by (rule ChromeInstaller_require_version_world)
  show ?thesis
    using assms(1,3,4)
    by (simp add: ChromeInstaller_get_download_url_def bind_def lift_def urlopen_def rv w'
        first_item_split_on scan_keys_find leading_segment_def)
qed

theorem ChromeInstaller_get_download_url_first_match_witness:
  "ChromeInstaller_get_platform_architecture linux_world_exact = Inr (''linux'', ''64'')
   \<and> fst (ChromeInstaller_require_version (new_installer Chrome True, linux_world_exact))
       = Inr ''114.0.5735.90''
   \<and> net linux_world_exact chrome_listing_url = Some chrome_listing_exact
   \<and> content chrome_listing_exact
       = XmlKeys (map Some [''113.0.5672.63/chromedriver_linux64.zip'',
                            ''114.0.5735.90/chromedriver_linux64.zip'',
                            ''114.0.5735.90/chromedriver_mac64.zip''])
   \<and> fst (ChromeInstaller_get_download_url (new_installer Chrome True, linux_world_exact))
       = Inr (chrome_base_url @ ''114.0.5735.90/chromedriver_linux64.zip'')"
proof -
  have a: "ChromeInstaller_get_platform_architecture linux_world_exact = Inr (''linux'', ''64'')"
    by (simp add: ChromeInstaller_get_platform_architecture_def linux_world_exact_def linux_world_sel
        startswith_def)
  have b: "fst (ChromeInstaller_require_version (new_installer Chrome True, linux_world_exact))
       = Inr ''114.0.5735.90''"
    by (simp add: ChromeInstaller_require_version_linux_exact)
  have c: "net linux_world_exact chrome_listing_url = Some chrome_listing_exact"
    by (simp add: linux_world_exact_def)
  have d: "content chrome_listing_exact
       = XmlKeys (map Some [''113.0.5672.63/chromedriver_linux64.zip'',
                            ''114.0.5735.90/chromedriver_linux64.zip'',
                            ''114.0.5735.90/chromedriver_mac64.zip''])"
    by (simp add: chrome_listing_exact_def)
  show ?thesis
    using a b c d ChromeInstaller_get_download_url_first_match [OF a b c d]
    by (simp add: leading_segment_def)
qed

section \<open>ChromeInstaller.require_version and the guard of download\<close>




section \<open>The setters of the option builders\<close>

text \<open>
  Claim C8. On a builder object of any of the three classes and for every argument
  string, \<open>set_user_agent\<close> and \<open>set_start_url\<close> raise nothing and return the
  receiver. \<open>set_user_agent\<close> on the IE builder and \<open>set_start_url\<close> on the Chrome
  builder leave every object unchanged and only print their notice.
\<close>

theorem setters_never_raise:
  assumes "heap st r = Some obj"
  shows "fst (set_user_agent r ua st) = Inr r
       \<and> fst (set_start_url r url st) = Inr r
       \<and> ((\<exists>opts. obj = IeOptions opts) \<longrightarrow>
            set_user_agent r ua st = (Inr r, st\<lparr>stdout := stdout st @ [IeUserAgentUnsupported]\<rparr>))
       \<and> ((\<exists>opts. obj = ChromeOptions opts) \<longrightarrow>
            set_start_url r url st = (Inr r, st\<lparr>stdout := stdout st @ [ChromeStartUrlUnsupported]\<rparr>))"
proof (cases obj)
  case (IeOptions opts)
  with assms show ?thesis
    by (simp add: set_user_agent_def set_start_url_def IeOptions_set_user_agent_def
        IeOptions_set_start_url_def)
next
  case (ChromeOptions opts)
  with assms show ?thesis
    by (simp add: set_user_agent_def set_start_url_def ChromeOptions_set_user_agent_def
        ChromeOptions_set_start_url_def add_argument_def)
next
  case (FirefoxOptions opts)
  with assms show ?thesis
    by (simp add: set_user_agent_def set_start_url_def FirefoxOptions_set_user_agent_def
        FirefoxOptions_set_start_url_def)
qed

theorem setters_never_raise_witness:
  "heap builders 0 = Some (IeOptions IeOptions_init_options)
   \<and> fst (set_user_agent 0 ''Mozilla/5.0'' builders) = Inr 0
   \<and> fst (set_start_url 0 ''https://example.com'' builders) = Inr 0
   \<and> set_user_agent 0 ''Mozilla/5.0'' builders
       = (Inr 0, builders\<lparr>stdout := stdout builders @ [IeUserAgentUnsupported]\<rparr>)"
proof -
  have h: "heap builders 0 = Some (IeOptions IeOptions_init_options)"
    by (simp add: builders_def)
  show ?thesis
    using h setters_never_raise [OF h, of "''Mozilla/5.0''" "''https://example.com''"]
    by simp
qed

section \<open>binary_name and binary_path\<close>

text \<open>
  Claim C9 as stated fails on the Linux machine: \<open>binary_path\<close> of the Chrome
  installer there is /opt/drv/ (\<open>os.path.join\<close> with an empty last component ends
  the path with a separator), which is not the string \<open>driver_dir\<close>, /opt/drv.
\<close>

theorem binary_path_not_driver_dir:
  "ChromeInstaller_binary_path (new_installer Chrome True) linux_world = ''/opt/drv/''
   \<and> driver_dir (new_installer Chrome True) linux_world = ''/opt/drv''
   \<and> ChromeInstaller_binary_path (new_installer Chrome True) linux_world
       \<noteq> driver_dir (new_installer Chrome True) linux_world"
  by (simp add: ChromeInstaller_binary_path_def ChromeInstaller_binary_name_def driver_dir_def path_join_def
      is_win_def startswith_def endswith_def suffix_to_prefix new_installer_def linux_world_def)

text \<open>
  Claim C9, amended. Off Windows the binary names of the Chrome and Firefox installers
  are empty, and \<open>binary_path\<close> is the driver directory followed by one slash (no
  slash is added when the directory is empty or already ends with one). On Windows the
  names are chromedriver.exe and geckodriver.exe and \<open>binary_path\<close> ends with them.
\<close>

theorem binary_name_empty_off_windows:
  "(\<not> startswith (platform w) ''win'' \<longrightarrow>
      ChromeInstaller_binary_name w = [] \<and> FireFoxInstaller_binary_name w = []
      \<and> ChromeInstaller_binary_path self w
          = (if driver_dir self w = [] \<or> endswith (driver_dir self w) ''/''
             then driver_dir self w else driver_dir self w @ ''/'')
      \<and> FireFoxInstaller_binary_path self w = ChromeInstaller_binary_path self w)
   \<and> (startswith (platform w) ''win'' \<longrightarrow>
      ChromeInstaller_binary_name w = ''chromedriver.exe'' \<and> FireFoxInstaller_binary_name w = ''geckodriver.exe''
      \<and> endswith (ChromeInstaller_binary_path self w) ''chromedriver.exe''
      \<and> endswith (FireFoxInstaller_binary_path self w) ''geckodriver.exe'')"
proof (cases "startswith (platform w) ''win''")
  case True
  then have "is_win w" by (simp add: is_win_def)
  with True show ?thesis
    using path_join_name_win [of w "driver_dir self w" "''chromedriver.exe''"]
      path_join_name_win [of w "driver_dir self w" "''geckodriver.exe''"]
    by (simp add: ChromeInstaller_binary_name_def FireFoxInstaller_binary_name_def ChromeInstaller_binary_path_def
        FireFoxInstaller_binary_path_def)
next
  case False
  then have "\<not> is_win w" by (simp add: is_win_def)
  with False show ?thesis
    using path_join_empty_posix [of w "driver_dir self w"]
    by (simp add: ChromeInstaller_binary_name_def FireFoxInstaller_binary_name_def ChromeInstaller_binary_path_def
        FireFoxInstaller_binary_path_def)
qed

theorem binary_name_empty_off_windows_witness:
  "\<not> startswith (platform linux_world) ''win''
   \<and> ChromeInstaller_binary_name linux_world = []
   \<and> FireFoxInstaller_binary_path (new_installer FireFox True) linux_world = ''/opt/drv/''
   \<and> startswith (platform win_world) ''win''
   \<and> endswith (ChromeInstaller_binary_path (new_installer Chrome True) win_world) ''chromedriver.exe''"
  using binary_name_empty_off_windows [of linux_world "new_installer FireFox True"]
    binary_name_empty_off_windows [of win_world "new_installer Chrome True"]
  by (simp add: startswith_def endswith_def suffix_to_prefix linux_world_def win_world_def
      driver_dir_def new_installer_def ChromeInstaller_binary_name_def FireFoxInstaller_binary_name_def
      ChromeInstaller_binary_path_def FireFoxInstaller_binary_path_def path_join_def is_win_def win_dir_def
      backslash_def)

section \<open>FireFoxInstaller.current_version\<close>

text \<open>
  Claim C10, evaluated on the Windows machine whose Firefox driver is release 10.33.0:
  the driver prints geckodriver 10.33.0, and \<open>current_version\<close> returns v0.33.0.
  The greedy \<open>.*\<close> of the pattern takes the first digit of the version, so the
  result is not the printed version with the letter v before it. The release tag is
  v10.33.0, and \<open>has_require_version()\<close> is false although the driver is that
  release.
\<close>

theorem FireFoxInstaller_current_version_truncates:
  "check_output win_world_v10
      (FireFoxInstaller_binary_path (new_installer FireFox True) win_world_v10) [''--version'']
     = Inr ''geckodriver 10.33.0 (a80e5fd61076 2023-04-02)''
   \<and> fst (FireFoxInstaller_current_version (new_installer FireFox True, win_world_v10))
     = Inr ''v0.33.0''
   \<and> fst (FireFoxInstaller_current_version (new_installer FireFox True, win_world_v10))
     \<noteq> Inr ''v10.33.0''
   \<and> fst (FireFoxInstaller_require_version (new_installer FireFox True, win_world_v10))
     = Inr ''v10.33.0''
   \<and> fst (FireFoxInstaller_has_require_version (new_installer FireFox True, win_world_v10))
     = Inr False"
  by (simp add: check_output_gecko_v10 FireFoxInstaller_current_version_v10
      FireFoxInstaller_require_version_v10 new_installer_sel
      FireFoxInstaller_has_require_version_v10)

end
